theory Spec2Isabelle
  imports Main "HOL-Library.Monad_Syntax" "HOL-Library.Sublist"
begin

section \<open>Data model\<close>

text \<open>
  The notebook \<^verbatim>\<open>Canadian_banks_yahoo_finance_webscraping.ipynb\<close> downloads daily price
  tables, writes them to CSV files, reads three of them back and inserts every row into
  the PostgreSQL table \<^verbatim>\<open>stock_prices\<close>.

  A CSV file is the list of its lines, each line the list of its fields as text, an empty
  field being the empty text. A line of text without delimiter is a line of one field, so
  an empty line is the empty list or the list of one empty text.
\<close>

type_synonym csv_file = "string list list"

type_synonym filesystem = "string \<rightharpoonup> csv_file"

text \<open>
  A value in a pandas DataFrame read from a file: a missing value, a text, an integer, a
  float, an infinity or a boolean. \<open>FloatVal m d\<close> is the decimal \<open>m / 10 ^ d\<close> with the
  least \<open>d\<close>, so \<open>FloatVal 575 1\<close> is 57.5 and \<open>FloatVal 2207900 0\<close> is 2207900.0. A float
  is the decimal its numeral denotes: the rounding to binary64 is left out, and so are the
  integers beyond 64 bits.
\<close>

datatype cell =
    NaN
  | Val string
  | IntVal int
  | FloatVal int nat
  | PosInf
  | NegInf
  | BoolVal bool

text \<open>A pandas DataFrame: the column labels and the rows, in file order.\<close>

record frame =
  columns :: "cell list"
  rows :: "cell list list"

text \<open>The exceptions the cells can raise, all of them subclasses of \<^verbatim>\<open>Exception\<close>.\<close>

datatype exn =
    EmptyDataError
  | ParserError
  | LengthMismatch
  | KeyError
  | DatabaseError
  | OperationalError
  | ProviderError
  | NotAFrame

text \<open>One row of \<^verbatim>\<open>stock_prices\<close>, with the columns of \<^verbatim>\<open>insert_query\<close>.\<close>

record stock_row =
  stock_ticker :: string
  date :: cell
  open_price :: cell
  high_price :: cell
  low_price :: cell
  close_price :: cell
  volume :: cell

text \<open>
  The table's declaration is not part of the repository, so what the table accepts is a
  parameter: given the rows the transaction sees and the new row, does the INSERT pass.
  The parameter stands also for what the driver can send: \<^verbatim>\<open>psycopg2\<close> refuses a value of
  a numpy integer or boolean type, which the rows of a frame hold when all its columns are
  integer columns, or all boolean columns.
\<close>

type_synonym table_constraint = "stock_row list \<Rightarrow> stock_row \<Rightarrow> bool"

definition no_constraint :: table_constraint where
  "no_constraint visible r = True"

text \<open>
  Modelled from the spec: the declaration of \<^verbatim>\<open>stock_prices\<close> is missing; section 6 of the
  spec gives it a uniqueness constraint on (ticker, date).
\<close>

definition row_key :: "stock_row \<Rightarrow> string \<times> cell" where
  "row_key r = (stock_ticker r, date r)"

definition unique_ticker_date :: table_constraint where
  "unique_ticker_date visible r = (row_key r \<notin> set (map row_key visible))"

datatype message =
    InsertedSuccessfully string string
  | ErrorInserting exn
  | ScrapingFor string string
  | DataSaved string

text \<open>
  The state the insertion cell works on: the committed rows of the table, the rows the
  open transaction of \<^verbatim>\<open>conn\<close> has inserted and not committed, and the lines printed.
\<close>

record run_state =
  database :: "stock_row list"
  pending :: "stock_row list"
  printed :: "message list"

section \<open>The ticker catalogs\<close>

text \<open>Cell 10: the catalog the download and the scraper iterate.\<close>

definition bank_tickers :: "(string \<times> string) list" where
  "bank_tickers =
     [(''TD'', ''TD.TO''), (''BMO'', ''BMO.TO''), (''RBC'', ''RY.TO''),
      (''CIBC'', ''CM.TO''), (''Scotiabank'', ''BNS.TO'')]"

text \<open>
  Cell 32 rebinds the name before the insertion loop ("Bank tickers for TD, Scotiabank,
  and RBC").
\<close>

definition bank_tickers_insert :: "(string \<times> string) list" where
  "bank_tickers_insert =
     [(''TD'', ''TD.TO''), (''Scotiabank'', ''BNS.TO''), (''RBC'', ''RY.TO'')]"

definition csv_folder :: string where
  "csv_folder = ''D:'' @ [CHR 0x5C] @ ''CANADIAN_BANKS_STOCK_DATA''"

definition path_join :: "string \<Rightarrow> string \<Rightarrow> string" where
  "path_join folder name = folder @ [CHR 0x5C] @ name"

definition historical_file :: "string \<Rightarrow> string" where
  "historical_file bank = bank @ ''_historical_data.csv''"

section \<open>How pandas reads a field\<close>

text \<open>
  The texts \<^verbatim>\<open>pd.read_csv\<close> reads as a missing value (its default \<^verbatim>\<open>na_values\<close>); the
  comparison is with the whole field.
\<close>

definition na_values :: "string list" where
  "na_values =
     ['''', ''#N/A'', ''#N/A N/A'', ''#NA'', ''-1.#IND'', ''-1.#QNAN'', ''-NaN'', ''-nan'',
      ''1.#IND'', ''1.#QNAN'', ''<NA>'', ''N/A'', ''NA'', ''NULL'', ''NaN'', ''None'', ''n/a'',
      ''nan'', ''null'']"

definition is_na :: "string \<Rightarrow> bool" where
  "is_na s = (s \<in> set na_values)"

definition is_digit :: "char \<Rightarrow> bool" where
  "is_digit c = (c \<in> set ''0123456789'')"

definition digit_value :: "char \<Rightarrow> int" where
  "digit_value c =
     (case map_of (zip ''0123456789'' [0, 1, 2, 3, 4, 5, 6, 7, 8, 9]) c of
        None \<Rightarrow> 0
      | Some d \<Rightarrow> d)"

definition digits_value :: "string \<Rightarrow> int" where
  "digits_value s = foldl (\<lambda>n c. 10 * n + digit_value c) 0 s"

text \<open>Space, tab, line feed, vertical tab, form feed, carriage return.\<close>

definition is_space :: "char \<Rightarrow> bool" where
  "is_space c = (c \<in> set [CHR 0x20, CHR 0x09, CHR 0x0A, CHR 0x0B, CHR 0x0C, CHR 0x0D])"

definition strip_spaces :: "string \<Rightarrow> string" where
  "strip_spaces s = rev (dropWhile is_space (rev (dropWhile is_space s)))"

definition is_sign :: "char \<Rightarrow> bool" where
  "is_sign c = (c \<in> set ''+-'')"

definition unsigned :: "string \<Rightarrow> string" where
  "unsigned s = (case s of [] \<Rightarrow> [] | c # cs \<Rightarrow> if is_sign c then cs else s)"

definition negative :: "string \<Rightarrow> bool" where
  "negative s = (case s of [] \<Rightarrow> False | c # cs \<Rightarrow> c = CHR ''-'')"

definition all_digits :: "string \<Rightarrow> bool" where
  "all_digits s = (s \<noteq> [] \<and> list_all is_digit s)"

text \<open>
  An integer numeral: spaces, an optional sign, digits, spaces. Its value is read in
  base ten.
\<close>

definition int_text :: "string \<Rightarrow> bool" where
  "int_text s = all_digits (unsigned (strip_spaces s))"

definition int_value :: "string \<Rightarrow> int" where
  "int_value s =
     (let t = strip_spaces s; n = digits_value (unsigned t)
      in if negative t then - n else n)"

text \<open>
  The parts of a float numeral: after spaces and an optional sign, the digits before the
  point, the digits after it, and what follows them.
\<close>

definition int_digits :: "string \<Rightarrow> string" where
  "int_digits s = takeWhile is_digit (unsigned (strip_spaces s))"

definition after_int :: "string \<Rightarrow> string" where
  "after_int s = dropWhile is_digit (unsigned (strip_spaces s))"

definition fraction_digits :: "string \<Rightarrow> string" where
  "fraction_digits s =
     (case after_int s of
        [] \<Rightarrow> []
      | c # cs \<Rightarrow> if c = CHR ''.'' then takeWhile is_digit cs else [])"

definition after_fraction :: "string \<Rightarrow> string" where
  "after_fraction s =
     (case after_int s of
        [] \<Rightarrow> []
      | c # cs \<Rightarrow> if c = CHR ''.'' then dropWhile is_digit cs else c # cs)"

text \<open>The exponent part is empty, or the letter e or E, an optional sign and digits.\<close>

definition exponent_ok :: "string \<Rightarrow> bool" where
  "exponent_ok r =
     (case r of
        [] \<Rightarrow> True
      | c # cs \<Rightarrow> c \<in> set ''eE'' \<and> all_digits (unsigned cs))"

definition exponent_value :: "string \<Rightarrow> int" where
  "exponent_value r =
     (case r of
        [] \<Rightarrow> 0
      | c # cs \<Rightarrow> if negative cs then - digits_value (unsigned cs)
                   else digits_value (unsigned cs))"

definition decimal_text :: "string \<Rightarrow> bool" where
  "decimal_text s =
     (int_digits s @ fraction_digits s \<noteq> [] \<and> exponent_ok (after_fraction s))"

definition to_lower :: "char \<Rightarrow> char" where
  "to_lower c =
     (case map_of (zip ''ABCDEFGHIJKLMNOPQRSTUVWXYZ'' ''abcdefghijklmnopqrstuvwxyz'') c of
        None \<Rightarrow> c
      | Some l \<Rightarrow> l)"

definition pos_inf_text :: "string \<Rightarrow> bool" where
  "pos_inf_text s = (map to_lower s \<in> set [''inf'', ''+inf'', ''infinity'', ''+infinity''])"

definition neg_inf_text :: "string \<Rightarrow> bool" where
  "neg_inf_text s = (map to_lower s \<in> set [''-inf'', ''-infinity''])"

text \<open>A float numeral: a decimal with an optional exponent, or an infinity.\<close>

definition float_text :: "string \<Rightarrow> bool" where
  "float_text s = (decimal_text s \<or> pos_inf_text s \<or> neg_inf_text s)"

text \<open>Trailing zeros of the decimals are dropped, so that equal decimals are equal values.\<close>

fun least_decimals :: "int \<Rightarrow> nat \<Rightarrow> cell" where
  "least_decimals m 0 = FloatVal m 0"
| "least_decimals m (Suc d) =
     (if m mod 10 = 0 then least_decimals (m div 10) d else FloatVal m (Suc d))"

definition decimal_value :: "string \<Rightarrow> cell" where
  "decimal_value s =
     (let m = digits_value (int_digits s @ fraction_digits s);
          sm = (if negative (strip_spaces s) then - m else m);
          k = int (length (fraction_digits s)) - exponent_value (after_fraction s)
      in if 0 \<le> k then least_decimals sm (nat k) else FloatVal (sm * 10 ^ nat (- k)) 0)"

definition float_value :: "string \<Rightarrow> cell" where
  "float_value s =
     (if decimal_text s then decimal_value s else if neg_inf_text s then NegInf else PosInf)"

text \<open>The words true and false, in any mix of upper and lower case.\<close>

definition true_text :: "string \<Rightarrow> bool" where
  "true_text s = (map to_lower s = ''true'')"

definition bool_text :: "string \<Rightarrow> bool" where
  "bool_text s = (true_text s \<or> map to_lower s = ''false'')"

text \<open>
  The type pandas gives a column, tried in this order on the fields that are not missing:
  all integers, all floats, all booleans, else texts. An integer column with a missing
  field becomes a float column.
\<close>

datatype column_type = IntColumn | FloatColumn | BoolColumn | TextColumn

definition infer_type :: "string list \<Rightarrow> column_type" where
  "infer_type col =
     (let present = filter (\<lambda>s. \<not> is_na s) col in
      if list_all int_text present then (if list_ex is_na col then FloatColumn else IntColumn)
      else if list_all float_text present then FloatColumn
      else if list_all bool_text present then BoolColumn
      else TextColumn)"

definition convert_cell :: "column_type \<Rightarrow> string \<Rightarrow> cell" where
  "convert_cell ty s =
     (if is_na s then NaN
      else case ty of
             IntColumn \<Rightarrow> IntVal (int_value s)
           | FloatColumn \<Rightarrow> float_value s
           | BoolColumn \<Rightarrow> BoolVal (true_text s)
           | TextColumn \<Rightarrow> Val s)"

definition field :: "nat \<Rightarrow> string list \<Rightarrow> string" where
  "field j l = (if j < length l then l ! j else [])"

text \<open>Every field of a table of lines, converted with the type of its column.\<close>

definition infer_rows :: "string list list \<Rightarrow> cell list list" where
  "infer_rows ls =
     map (\<lambda>l. map (\<lambda>j. convert_cell (infer_type (map (field j) ls)) (field j l)) [0..<length l]) ls"

section \<open>Reading a price file\<close>

text \<open>A line that is empty or holds spaces and tabs only; pandas skips it.\<close>

definition blank_line :: "string list \<Rightarrow> bool" where
  "blank_line l =
     (case l of
        [] \<Rightarrow> True
      | s # rest \<Rightarrow> rest = [] \<and> list_all (\<lambda>c. c \<in> set [CHR 0x20, CHR 0x09]) s)"

definition pad_line :: "nat \<Rightarrow> string list \<Rightarrow> string list" where
  "pad_line n l = l @ replicate (n - length l) []"

text \<open>
  \<^verbatim>\<open>pd.read_csv(path, skiprows=n)\<close>: the first n lines of the file are skipped, then the
  blank lines; the next line gives the column labels, the others are the rows. Nothing
  left to read is an EmptyDataError. The width of the table is that of the header, or of
  the first row when this one is longer: then the leading fields of every row are the
  index and not a column. A later line longer than the width is a ParserError, a shorter
  one is filled with empty fields. The labels are kept as written (pandas renames the
  empty and the repeated ones; the notebook replaces them at once).
\<close>

definition read_csv :: "nat \<Rightarrow> csv_file \<Rightarrow> exn + frame" where
  "read_csv skiprows f =
     (case filter (\<lambda>l. \<not> blank_line l) (drop skiprows f) of
        [] \<Rightarrow> Inl EmptyDataError
      | h # ls \<Rightarrow>
          (let w = max (length h) (case ls of [] \<Rightarrow> 0 | l # rest \<Rightarrow> length l) in
           if list_ex (\<lambda>l. w < length l) ls then Inl ParserError
           else Inr \<lparr>columns = map Val h,
                     rows = infer_rows (map (\<lambda>l. drop (w - length h) (pad_line w l)) ls)\<rparr>))"

text \<open>\<^verbatim>\<open>df.columns = names\<close> raises a ValueError unless the lengths agree.\<close>

definition set_columns :: "string list \<Rightarrow> frame \<Rightarrow> exn + frame" where
  "set_columns names df =
     (if length names = length (columns df) then Inr (df\<lparr>columns := map Val names\<rparr>)
      else Inl LengthMismatch)"

definition schema_columns :: "string list" where
  "schema_columns =
     [''date'', ''close_price'', ''high_price'', ''low_price'', ''open_price'', ''volume'']"

text \<open>\<^verbatim>\<open>row[name]\<close> on a row of \<^verbatim>\<open>df.iterrows()\<close>; None stands for the KeyError.\<close>

definition getitem :: "frame \<Rightarrow> cell list \<Rightarrow> string \<Rightarrow> cell option" where
  "getitem df r name = map_of (zip (columns df) r) (Val name)"

text \<open>
  \<^verbatim>\<open>df.iterrows()\<close> makes every row a Series over \<^verbatim>\<open>df.values\<close>, which has one type for
  all columns. When every column holds integers only or floats only and not all of them
  hold integers, that type is float64 and the integers become floats; in every other case
  the values are those of the frame.
\<close>

definition int_cell :: "cell \<Rightarrow> bool" where
  "int_cell c = (case c of IntVal n \<Rightarrow> True | _ \<Rightarrow> False)"

definition float_cell :: "cell \<Rightarrow> bool" where
  "float_cell c =
     (case c of NaN \<Rightarrow> True | FloatVal m d \<Rightarrow> True | PosInf \<Rightarrow> True | NegInf \<Rightarrow> True
      | _ \<Rightarrow> False)"

definition as_float :: "cell \<Rightarrow> cell" where
  "as_float c = (case c of IntVal n \<Rightarrow> FloatVal n 0 | _ \<Rightarrow> c)"

definition column_cells :: "frame \<Rightarrow> nat \<Rightarrow> cell list" where
  "column_cells df j = map (\<lambda>r. if j < length r then r ! j else NaN) (rows df)"

definition values_float64 :: "frame \<Rightarrow> bool" where
  "values_float64 df =
     (list_all (\<lambda>j. list_all int_cell (column_cells df j) \<or> list_all float_cell (column_cells df j))
        [0..<length (columns df)] \<and>
      list_ex (\<lambda>j. \<not> list_all int_cell (column_cells df j)) [0..<length (columns df)])"

definition iterrows :: "frame \<Rightarrow> cell list list" where
  "iterrows df = (if values_float64 df then map (map as_float) (rows df) else rows df)"

text \<open>Cell 24: \<^verbatim>\<open>td_data.iloc[2:].reset_index(drop=True)\<close>.\<close>

definition iloc_from :: "nat \<Rightarrow> frame \<Rightarrow> frame" where
  "iloc_from n df = df\<lparr>rows := drop n (rows df)\<rparr>"

text \<open>
  Cells 21, 24 and 25 on one file: read it with the first line as header, drop the first
  two rows, rename the columns.
\<close>

definition td_data :: "csv_file \<Rightarrow> exn + frame" where
  "td_data f =
     (case read_csv 0 f of
        Inl e \<Rightarrow> Inl e
      | Inr df \<Rightarrow> set_columns schema_columns (iloc_from 2 df))"

text \<open>
  The lines of cell 32 that load one file: \<^verbatim>\<open>pd.read_csv(file_path, skiprows=2)\<close> and the
  renaming of the columns.
\<close>

definition load_frame :: "csv_file \<Rightarrow> exn + frame" where
  "load_frame f =
     (case read_csv 2 f of
        Inl e \<Rightarrow> Inl e
      | Inr df \<Rightarrow> set_columns schema_columns df)"

section \<open>Inserting into the store\<close>

text \<open>The tuple handed to \<^verbatim>\<open>cursor.execute\<close> for one row: the provider symbol and the cells.\<close>

definition insert_params :: "frame \<Rightarrow> string \<Rightarrow> cell list \<Rightarrow> stock_row option" where
  "insert_params df ticker r =
     do {
       d \<leftarrow> getitem df r ''date'';
       op \<leftarrow> getitem df r ''open_price'';
       hi \<leftarrow> getitem df r ''high_price'';
       lo \<leftarrow> getitem df r ''low_price'';
       cl \<leftarrow> getitem df r ''close_price'';
       vo \<leftarrow> getitem df r ''volume'';
       Some \<lparr>stock_ticker = ticker, date = d, open_price = op, high_price = hi,
             low_price = lo, close_price = cl, volume = vo\<rparr>
     }"

text \<open>The tuples of a whole batch, in row order.\<close>

definition param_rows :: "frame \<Rightarrow> string \<Rightarrow> cell list list \<Rightarrow> stock_row list" where
  "param_rows df ticker rs = List.map_filter (insert_params df ticker) rs"

text \<open>
  \<^verbatim>\<open>cursor.execute(insert_query, params)\<close>: a plain INSERT. The row joins the open
  transaction, or the statement fails and raises.
\<close>

definition cursor_execute :: "table_constraint \<Rightarrow> run_state \<Rightarrow> stock_row \<Rightarrow> exn + run_state" where
  "cursor_execute ok st r =
     (if ok (database st @ pending st) r then Inr (st\<lparr>pending := pending st @ [r]\<rparr>)
      else Inl DatabaseError)"

definition conn_commit :: "run_state \<Rightarrow> run_state" where
  "conn_commit st = st\<lparr>database := database st @ pending st, pending := []\<rparr>"

text \<open>\<^verbatim>\<open>conn.close()\<close> discards what the transaction has not committed.\<close>

definition conn_close :: "run_state \<Rightarrow> run_state" where
  "conn_close st = st\<lparr>pending := []\<rparr>"

text \<open>
  The inner loop \<^verbatim>\<open>for _, row in df.iterrows()\<close>. An exception leaves the loop with the
  state reached so far; the first component of the result is the exception, if any.
\<close>

fun insert_rows ::
  "table_constraint \<Rightarrow> frame \<Rightarrow> string \<Rightarrow> cell list list \<Rightarrow> run_state \<Rightarrow> exn option \<times> run_state"
where
  "insert_rows ok df ticker [] st = (None, st)"
| "insert_rows ok df ticker (r # rs) st =
     (case insert_params df ticker r of
        None \<Rightarrow> (Some KeyError, st)
      | Some p \<Rightarrow>
          (case cursor_execute ok st p of
             Inl e \<Rightarrow> (Some e, st)
           | Inr st' \<Rightarrow> insert_rows ok df ticker rs st'))"

text \<open>The body of the loop over the banks, for one bank.\<close>

definition insert_bank ::
  "table_constraint \<Rightarrow> filesystem \<Rightarrow> string \<times> string \<Rightarrow> run_state \<Rightarrow> exn option \<times> run_state"
where
  "insert_bank ok fs b st =
     (case fs (path_join csv_folder (historical_file (fst b))) of
        None \<Rightarrow> (None, st)
      | Some f \<Rightarrow>
          (case load_frame f of
             Inl e \<Rightarrow> (Some e, st)
           | Inr df \<Rightarrow>
               (case insert_rows ok df (snd b) (iterrows df) st of
                  (Some e, st') \<Rightarrow> (Some e, st')
                | (None, st') \<Rightarrow>
                    (None, (conn_commit st')
                       \<lparr>printed := printed st' @ [InsertedSuccessfully (fst b) (snd b)]\<rparr>))))"

text \<open>\<^verbatim>\<open>for bank, ticker in bank_tickers.items()\<close>: an exception ends the loop.\<close>

fun insert_banks ::
  "table_constraint \<Rightarrow> filesystem \<Rightarrow> (string \<times> string) list \<Rightarrow> run_state \<Rightarrow> exn option \<times> run_state"
where
  "insert_banks ok fs [] st = (None, st)"
| "insert_banks ok fs (b # bs) st =
     (case insert_bank ok fs b st of
        (Some e, st') \<Rightarrow> (Some e, st')
      | (None, st') \<Rightarrow> insert_banks ok fs bs st')"

text \<open>
  The \<^verbatim>\<open>try\<close> block of cell 32 over a catalog: connect, run the loop, close; the single
  handler \<^verbatim>\<open>except Exception as e\<close> prints the error. \<^verbatim>\<open>reachable\<close> says whether
  \<^verbatim>\<open>psycopg2.connect\<close> succeeds, \<^verbatim>\<open>db\<close> is the committed content of the table.
\<close>

definition insert_run ::
  "table_constraint \<Rightarrow> filesystem \<Rightarrow> (string \<times> string) list \<Rightarrow> bool \<Rightarrow> stock_row list \<Rightarrow> run_state"
where
  "insert_run ok fs catalog reachable db =
     (if \<not> reachable
      then \<lparr>database = db, pending = [], printed = [ErrorInserting OperationalError]\<rparr>
      else
        (case insert_banks ok fs catalog \<lparr>database = db, pending = [], printed = []\<rparr> of
           (Some e, st) \<Rightarrow> st\<lparr>printed := printed st @ [ErrorInserting e]\<rparr>
         | (None, st) \<Rightarrow> conn_close st))"

text \<open>Cell 32 as it stands, over its own three tickers.\<close>

definition insert_cell :: "table_constraint \<Rightarrow> filesystem \<Rightarrow> bool \<Rightarrow> stock_row list \<Rightarrow> run_state" where
  "insert_cell ok fs reachable db = insert_run ok fs bank_tickers_insert reachable db"

section \<open>Downloading and saving the price tables\<close>

text \<open>
  Cells 11 and 12. The frame \<^verbatim>\<open>yf.download(ticker, ...)\<close> returns is used for one thing, to
  be written with \<^verbatim>\<open>to_csv\<close>; it is kept as the lines \<^verbatim>\<open>to_csv\<close> writes for it, and the
  provider is a function from the symbol to these lines.
\<close>

definition download_all ::
  "(string \<Rightarrow> csv_file) \<Rightarrow> (string \<times> string) list \<Rightarrow> (string \<times> csv_file) list"
where
  "download_all yf_download catalog = map (\<lambda>b. (fst b, yf_download (snd b))) catalog"

text \<open>
  The lines of a frame that the download filled for one symbol, as the output of cell 22
  shows them: three header lines before the bars, with the price names, the symbol
  repeated, and the index name followed by empty fields.
\<close>

definition to_csv_prices :: "string \<Rightarrow> string list list \<Rightarrow> csv_file" where
  "to_csv_prices ticker bars =
     [ [''Price'', ''Close'', ''High'', ''Low'', ''Open'', ''Volume''],
       ''Ticker'' # replicate 5 ticker,
       ''Date'' # replicate 5 [] ] @ bars"

text \<open>\<^verbatim>\<open>data.to_csv(f"{bank}_historical_data.csv")\<close> for every downloaded frame.\<close>

definition save_all :: "string \<Rightarrow> (string \<times> csv_file) list \<Rightarrow> filesystem \<Rightarrow> filesystem" where
  "save_all cwd historical_data fs =
     foldl (\<lambda>fs' d. fs'(path_join cwd (historical_file (fst d)) \<mapsto> snd d)) fs historical_data"

text \<open>
  The notebook from the download to the insertion: cells 10 to 12 over the five tickers,
  then cell 32, which rebinds the catalog to three of them.
\<close>

definition notebook_prices ::
  "table_constraint \<Rightarrow> (string \<Rightarrow> csv_file) \<Rightarrow> string \<Rightarrow> filesystem \<Rightarrow> bool \<Rightarrow>
   stock_row list \<Rightarrow> filesystem \<times> run_state"
where
  "notebook_prices ok yf_download cwd fs reachable db =
     (let fs' = save_all cwd (download_all yf_download bank_tickers) fs
      in (fs', insert_cell ok fs' reachable db))"

section \<open>Scraping the financial statements and the dividends\<close>

text \<open>
  The frame of \<^verbatim>\<open>stock.history(period="max")\<close>: its column names, and its rows, each with
  the index (symbol, day) and one field for every column. The values are kept as the
  texts \<^verbatim>\<open>to_csv\<close> writes for them.
\<close>

record history_row =
  symbol :: string
  day :: string
  entries :: "string list"

record history_frame =
  hcolumns :: "string list"
  hrows :: "history_row list"

text \<open>
  What a statement call returns: a table, or the text of an error, which
  \<^verbatim>\<open>pd.DataFrame\<close> refuses.
\<close>

datatype payload = Table csv_file | Message string

text \<open>
  The calls on the \<^verbatim>\<open>yahooquery\<close> Ticker object. \<^verbatim>\<open>Inl\<close> is an exception raised by the
  call; for \<^verbatim>\<open>history\<close> it stands also for an answer that is not a frame, on which the next
  line raises.
\<close>

record provider =
  income_statement :: "string \<Rightarrow> exn + payload"
  balance_sheet :: "string \<Rightarrow> exn + payload"
  cash_flow :: "string \<Rightarrow> exn + payload"
  history :: "string \<Rightarrow> exn + history_frame"

record scrape_state =
  written :: filesystem
  shown :: "message list"

text \<open>
  The two lines that select the dividends: the rows whose symbol is the ticker, projected
  on the index and the column \<^verbatim>\<open>dividends\<close>; a frame without that column raises a KeyError.
\<close>

definition select_dividends :: "string \<Rightarrow> history_frame \<Rightarrow> exn + (string \<times> string \<times> string) list" where
  "select_dividends ticker h =
     (if ''dividends'' \<in> set (hcolumns h)
      then Inr (map (\<lambda>r. (symbol r, day r,
                           case map_of (zip (hcolumns h) (entries r)) ''dividends'' of
                             None \<Rightarrow> []
                           | Some v \<Rightarrow> v))
                  (filter (\<lambda>r. symbol r = ticker) (hrows h)))
      else Inl KeyError)"

definition dividends_csv :: "(string \<times> string \<times> string) list \<Rightarrow> csv_file" where
  "dividends_csv ds =
     [''symbol'', ''date'', ''dividends''] # map (\<lambda>d. [fst d, fst (snd d), snd (snd d)]) ds"

text \<open>\<^verbatim>\<open>pd.DataFrame(x).to_csv(path, index=False)\<close>.\<close>

definition save_statement :: "string \<Rightarrow> payload \<Rightarrow> scrape_state \<Rightarrow> exn + scrape_state" where
  "save_statement path x st =
     (case x of
        Table f \<Rightarrow> Inr (st\<lparr>written := (written st)(path \<mapsto> f)\<rparr>)
      | Message m \<Rightarrow> Inl NotAFrame)"

text \<open>
  The body of the loop of \<^verbatim>\<open>scrape_financial_data\<close>, which has no handler: the four calls,
  the selection of the dividends, the three statement files, the dividends file when the
  selection is not empty, and the closing line.
\<close>

definition scrape_bank ::
  "provider \<Rightarrow> string \<Rightarrow> string \<times> string \<Rightarrow> scrape_state \<Rightarrow> exn option \<times> scrape_state"
where
  "scrape_bank p cwd b st0 =
     (let st = st0\<lparr>shown := shown st0 @ [ScrapingFor (fst b) (snd b)]\<rparr> in
      case income_statement p (snd b) of
        Inl e \<Rightarrow> (Some e, st)
      | Inr inc \<Rightarrow>
      (case balance_sheet p (snd b) of
        Inl e \<Rightarrow> (Some e, st)
      | Inr bal \<Rightarrow>
      (case cash_flow p (snd b) of
        Inl e \<Rightarrow> (Some e, st)
      | Inr cf \<Rightarrow>
      (case history p (snd b) of
        Inl e \<Rightarrow> (Some e, st)
      | Inr h \<Rightarrow>
      (case select_dividends (snd b) h of
        Inl e \<Rightarrow> (Some e, st)
      | Inr ds \<Rightarrow>
      (case save_statement (path_join cwd (fst b @ ''_income_statement.csv'')) inc st of
        Inl e \<Rightarrow> (Some e, st)
      | Inr st1 \<Rightarrow>
      (case save_statement (path_join cwd (fst b @ ''_balance_sheet.csv'')) bal st1 of
        Inl e \<Rightarrow> (Some e, st1)
      | Inr st2 \<Rightarrow>
      (case save_statement (path_join cwd (fst b @ ''_cash_flow.csv'')) cf st2 of
        Inl e \<Rightarrow> (Some e, st2)
      | Inr st3 \<Rightarrow>
          (let st4 = (if ds \<noteq> []
                      then st3\<lparr>written := (written st3)
                              (path_join cwd (fst b @ ''_dividends.csv'') \<mapsto> dividends_csv ds)\<rparr>
                      else st3)
           in (None, st4\<lparr>shown := shown st4 @ [DataSaved (fst b)]\<rparr>))))))))))"

fun scrape_banks ::
  "provider \<Rightarrow> string \<Rightarrow> (string \<times> string) list \<Rightarrow> scrape_state \<Rightarrow> exn option \<times> scrape_state"
where
  "scrape_banks p cwd [] st = (None, st)"
| "scrape_banks p cwd (b # bs) st =
     (case scrape_bank p cwd b st of
        (Some e, st') \<Rightarrow> (Some e, st')
      | (None, st') \<Rightarrow> scrape_banks p cwd bs st')"

definition scrape_financial_data :: "provider \<Rightarrow> string \<Rightarrow> filesystem \<Rightarrow> exn option \<times> scrape_state" where
  "scrape_financial_data p cwd fs = scrape_banks p cwd bank_tickers \<lparr>written = fs, shown = []\<rparr>"

section \<open>The normalizer as the specification words it\<close>

text \<open>
  The specification describes a normalizer that recognises rows by their content. These
  definitions follow its words, for comparison with \<^const>\<open>td_data\<close> and
  \<^const>\<open>load_frame\<close>; nothing of them is in the notebook. They work on the lines of the
  raw table, in the order Date, Close, High, Low, Open, Volume.
\<close>

definition days_in_month :: "int \<Rightarrow> int \<Rightarrow> int" where
  "days_in_month y m =
     (if m = 2 then (if y mod 4 = 0 \<and> (y mod 100 \<noteq> 0 \<or> y mod 400 = 0) then 29 else 28)
      else if m \<in> set [4, 6, 9, 11] then 30 else 31)"

text \<open>A calendar date written YYYY-MM-DD.\<close>

definition is_calendar_date :: "string \<Rightarrow> bool" where
  "is_calendar_date s =
     (length s = 10 \<and> s ! 4 = CHR ''-'' \<and> s ! 7 = CHR ''-'' \<and>
      list_all is_digit (take 4 s @ take 2 (drop 5 s) @ drop 8 s) \<and>
      1 \<le> digits_value (take 2 (drop 5 s)) \<and> digits_value (take 2 (drop 5 s)) \<le> 12 \<and>
      1 \<le> digits_value (drop 8 s) \<and>
      digits_value (drop 8 s) \<le> days_in_month (digits_value (take 4 s)) (digits_value (take 2 (drop 5 s))))"

text \<open>A price: a decimal numeral. A volume: digits only.\<close>

definition is_number :: "string \<Rightarrow> bool" where
  "is_number s = decimal_text s"

definition is_integer :: "string \<Rightarrow> bool" where
  "is_integer s = all_digits s"

text \<open>A line whose fields are all of the canonical types.\<close>

definition canonical_row :: "string list \<Rightarrow> bool" where
  "canonical_row r =
     (case r of
        [d, cl, hi, lo, op, vo] \<Rightarrow>
          is_calendar_date d \<and> is_number cl \<and> is_number hi \<and> is_number lo \<and> is_number op \<and>
          is_integer vo
      | _ \<Rightarrow> False)"

text \<open>
  A header artifact: a row whose date field is not a calendar date, or whose price
  fields are not numbers.
\<close>

definition header_artifact :: "string list \<Rightarrow> bool" where
  "header_artifact r =
     (case r of
        [d, cl, hi, lo, op, vo] \<Rightarrow>
          \<not> (is_calendar_date d \<and> is_number cl \<and> is_number hi \<and> is_number lo \<and> is_number op)
      | _ \<Rightarrow> True)"

text \<open>
  \<^verbatim>\<open>normalize_price_table\<close> of section 4.4: the leading header artifacts are discarded, the
  rows that are not canonical are excluded and counted.
\<close>

definition spec_normalize_price_table :: "string list list \<Rightarrow> string list list \<times> nat" where
  "spec_normalize_price_table raw =
     (let body = dropWhile header_artifact raw
      in (filter canonical_row body, length (filter (\<lambda>r. \<not> canonical_row r) body)))"

section \<open>The example data\<close>

text \<open>The first lines of the TD file, with the figures cell 24 prints.\<close>

definition td_line1 :: "string list" where
  "td_line1 = [''2020-01-02'', ''57.946807861328125'', ''57.99416701667758'',
               ''57.560076551433816'', ''57.78106587137342'', ''2207900'']"

definition td_line2 :: "string list" where
  "td_line2 = [''2020-01-03'', ''57.89942932128906'', ''57.94678243435267'',
               ''57.54426893030253'', ''57.67844009831924'', ''3472900'']"

definition td_line3 :: "string list" where
  "td_line3 = [''2020-01-06'', ''57.907352447509766'', ''57.986276349218535'',
               ''57.583756622543774'', ''57.61532738752883'', ''8359000'']"

definition td_line4 :: "string list" where
  "td_line4 = [''2020-01-07'', ''57.84419250488281'', ''58.17567639944808'',
               ''57.78894518912193'', ''58.0178286462758'', ''3622600'']"

definition td_file :: csv_file where
  "td_file = to_csv_prices ''TD.TO'' [td_line1, td_line2, td_line3, td_line4]"

definition td_folder :: filesystem where
  "td_folder = [path_join csv_folder (historical_file ''TD'') \<mapsto> td_file]"

text \<open>The rows pandas reads from these lines when every column is numeric but the date.\<close>

definition td_bar1 :: "cell list" where
  "td_bar1 = [Val ''2020-01-02'', FloatVal 57946807861328125 15, FloatVal 5799416701667758 14,
              FloatVal 57560076551433816 15, FloatVal 5778106587137342 14, IntVal 2207900]"

definition td_bar2 :: "cell list" where
  "td_bar2 = [Val ''2020-01-03'', FloatVal 5789942932128906 14, FloatVal 5794678243435267 14,
              FloatVal 5754426893030253 14, FloatVal 5767844009831924 14, IntVal 3472900]"

definition td_bar3 :: "cell list" where
  "td_bar3 = [Val ''2020-01-06'', FloatVal 57907352447509766 15, FloatVal 57986276349218535 15,
              FloatVal 57583756622543774 15, FloatVal 5761532738752883 14, IntVal 8359000]"

definition td_bar4 :: "cell list" where
  "td_bar4 = [Val ''2020-01-07'', FloatVal 5784419250488281 14, FloatVal 5817567639944808 14,
              FloatVal 5778894518912193 14, FloatVal 580178286462758 13, IntVal 3622600]"

definition td_frame :: frame where
  "td_frame = \<lparr>columns = map Val schema_columns, rows = [td_bar1, td_bar2, td_bar3, td_bar4]\<rparr>"

text \<open>A Scotiabank file with one bar; the figures are an example.\<close>

definition bns_line1 :: "string list" where
  "bns_line1 = [''2020-01-02'', ''55.25'', ''55.5'', ''55.0'', ''55.125'', ''1500000'']"

definition bns_bar1 :: "cell list" where
  "bns_bar1 = [Val ''2020-01-02'', FloatVal 5525 2, FloatVal 555 1, FloatVal 55 0,
               FloatVal 55125 3, IntVal 1500000]"

definition bns_file :: csv_file where
  "bns_file = to_csv_prices ''BNS.TO'' [bns_line1]"

text \<open>The row the Scotiabank file gives.\<close>

definition bns_stored :: "stock_row list" where
  "bns_stored =
     [\<lparr>stock_ticker = ''BNS.TO'', date = Val ''2020-01-02'', open_price = FloatVal 55125 3,
       high_price = FloatVal 555 1, low_price = FloatVal 55 0, close_price = FloatVal 5525 2,
       volume = IntVal 1500000\<rparr>]"

text \<open>A TD file that lacks the Volume column: five fields on every line.\<close>

definition td_file_no_volume :: csv_file where
  "td_file_no_volume =
     [ [''Price'', ''Close'', ''High'', ''Low'', ''Open''],
       ''Ticker'' # replicate 4 ''TD.TO'',
       ''Date'' # replicate 4 [],
       butlast td_line1 ]"

definition two_banks_folder :: filesystem where
  "two_banks_folder =
     [path_join csv_folder (historical_file ''TD'') \<mapsto> td_file_no_volume,
      path_join csv_folder (historical_file ''Scotiabank'') \<mapsto> bns_file]"

text \<open>A TD file in which the first day stands twice.\<close>

definition td_file_repeated :: csv_file where
  "td_file_repeated = to_csv_prices ''TD.TO'' [td_line1, td_line1, td_line2]"

definition repeated_folder :: filesystem where
  "repeated_folder = [path_join csv_folder (historical_file ''TD'') \<mapsto> td_file_repeated]"

text \<open>The TD file, and a Scotiabank file in which the day stands twice.\<close>

definition bns_file_repeated :: csv_file where
  "bns_file_repeated = to_csv_prices ''BNS.TO'' [bns_line1, bns_line1]"

definition td_then_repeated_folder :: filesystem where
  "td_then_repeated_folder =
     [path_join csv_folder (historical_file ''TD'') \<mapsto> td_file,
      path_join csv_folder (historical_file ''Scotiabank'') \<mapsto> bns_file_repeated]"

text \<open>A TD table whose header line is followed by the bars at once.\<close>

definition td_file_no_artifacts :: csv_file where
  "td_file_no_artifacts =
     [''Date'', ''Close'', ''High'', ''Low'', ''Open'', ''Volume''] #
     [td_line1, td_line2, td_line3]"

text \<open>A line whose date and closing price are not of the canonical types.\<close>

definition bad_line :: "string list" where
  "bad_line = [''not-a-date'', ''abc'', [], ''57.5'', ''57.7'', ''12.5'']"

definition td_file_bad_row :: csv_file where
  "td_file_bad_row = to_csv_prices ''TD.TO'' [td_line1, bad_line, td_line2]"

definition bad_row_folder :: filesystem where
  "bad_row_folder = [path_join csv_folder (historical_file ''TD'') \<mapsto> td_file_bad_row]"

text \<open>A provider that answers every symbol with a file of one bar.\<close>

definition one_bar_feed :: "string \<Rightarrow> csv_file" where
  "one_bar_feed ticker = to_csv_prices ticker [td_line1]"

text \<open>
  Three providers, each with a dividends column in its history frame: the history frame
  of the first has no row, the history call of the second raises, the third has two days
  of the symbol on which no dividend was paid.
\<close>

definition quiet_provider :: provider where
  "quiet_provider =
     \<lparr>income_statement = (\<lambda>t. Inr (Table [[''asOfDate'', ''TotalRevenue'']])),
      balance_sheet = (\<lambda>t. Inr (Table [[''asOfDate'', ''TotalAssets'']])),
      cash_flow = (\<lambda>t. Inr (Table [[''asOfDate'', ''FreeCashFlow'']])),
      history = (\<lambda>t. Inr \<lparr>hcolumns = [''close'', ''dividends''], hrows = []\<rparr>)\<rparr>"

definition failing_provider :: provider where
  "failing_provider = quiet_provider\<lparr>history := (\<lambda>t. Inl ProviderError)\<rparr>"

definition zero_dividend_provider :: provider where
  "zero_dividend_provider =
     quiet_provider
       \<lparr>history := (\<lambda>t. Inr \<lparr>hcolumns = [''close'', ''dividends''],
                             hrows = [\<lparr>symbol = t, day = ''2020-01-02'',
                                       entries = [''57.9'', ''0.0'']\<rparr>,
                                      \<lparr>symbol = t, day = ''2020-01-03'',
                                       entries = [''57.8'', ''0.0'']\<rparr>]\<rparr>)\<rparr>"

text \<open>A provider whose history frame has no dividends column.\<close>

definition no_dividends_provider :: provider where
  "no_dividends_provider =
     quiet_provider
       \<lparr>history := (\<lambda>t. Inr \<lparr>hcolumns = [''close''],
                             hrows = [\<lparr>symbol = t, day = ''2020-01-02'',
                                       entries = [''57.9'']\<rparr>]\<rparr>)\<rparr>"

section \<open>Helper lemmas\<close>

lemma six_fields_not_blank: "length l = 6 \<Longrightarrow> \<not> blank_line l"
  by (cases l) (auto simp: blank_line_def)

lemma pad_line_id: "length l = n \<Longrightarrow> pad_line n l = l"
  by (simp add: pad_line_def)

lemma pad_lines_id: "list_all (\<lambda>l. length l = n) ls \<Longrightarrow> map (pad_line n) ls = ls"
  by (induction ls) (simp_all add: pad_line_id)

lemma length_infer_rows: "length (infer_rows ls) = length ls"
  by (simp add: infer_rows_def)

lemma infer_rows_widths:
  "list_all (\<lambda>l. length l = n) ls \<Longrightarrow> list_all (\<lambda>r. length r = n) (infer_rows ls)"
  by (auto simp: infer_rows_def list_all_iff)

lemma infer_rows_nth:
  "i < length ls \<Longrightarrow> j < length (ls ! i) \<Longrightarrow>
   infer_rows ls ! i ! j = convert_cell (infer_type (map (field j) ls)) (ls ! i ! j)"
  by (simp add: infer_rows_def field_def)

lemma read_csv_Inr:
  assumes "read_csv n f = Inr df"
  obtains h ls where "filter (\<lambda>l. \<not> blank_line l) (drop n f) = h # ls"
    and "columns df = map Val h"
    and "length (rows df) = length ls"
    and "list_all (\<lambda>r. length r = length h) (rows df)"
proof -
  from assms obtain h ls where d: "filter (\<lambda>l. \<not> blank_line l) (drop n f) = h # ls"
    by (auto simp: read_csv_def split: list.splits)
  define w where "w = max (length h) (case ls of [] \<Rightarrow> 0 | l # rest \<Rightarrow> length l)"
  from assms d have ok: "\<not> list_ex (\<lambda>l. w < length l) ls"
    and df: "df = \<lparr>columns = map Val h,
                   rows = infer_rows (map (\<lambda>l. drop (w - length h) (pad_line w l)) ls)\<rparr>"
    by (auto simp: read_csv_def w_def Let_def split: if_splits)
  have hw: "length h \<le> w" by (simp add: w_def)
  have "list_all (\<lambda>l. length l = length h) (map (\<lambda>l. drop (w - length h) (pad_line w l)) ls)"
    using ok hw by (auto simp: list_all_iff list_ex_iff pad_line_def)
  then have "list_all (\<lambda>r. length r = length h) (rows df)"
    using df by (simp add: infer_rows_widths)
  moreover have "length (rows df) = length ls" using df by (simp add: length_infer_rows)
  moreover have "columns df = map Val h" using df by simp
  ultimately show ?thesis using d that by blast
qed

lemma load_frame_Inr:
  assumes "load_frame f = Inr df"
  shows "columns df = map Val schema_columns"
    and "list_all (\<lambda>r. length r = 6) (rows df)"
    and "length (rows df) = length (filter (\<lambda>l. \<not> blank_line l) (drop 2 f)) - 1"
proof -
  from assms obtain df0 where r: "read_csv 2 f = Inr df0"
    and s: "set_columns schema_columns df0 = Inr df"
    by (auto simp: load_frame_def split: sum.splits)
  from s have len: "length (columns df0) = 6" and df: "df = df0\<lparr>columns := map Val schema_columns\<rparr>"
    by (auto simp: set_columns_def schema_columns_def split: if_splits)
  from r obtain h ls where d: "filter (\<lambda>l. \<not> blank_line l) (drop 2 f) = h # ls"
    and c: "columns df0 = map Val h"
    and n: "length (rows df0) = length ls"
    and w: "list_all (\<lambda>r. length r = length h) (rows df0)"
    by (rule read_csv_Inr)
  from c len have "length h = 6" by simp
  with w df show "list_all (\<lambda>r. length r = 6) (rows df)" by simp
  from df show "columns df = map Val schema_columns" by simp
  from df n d show "length (rows df) = length (filter (\<lambda>l. \<not> blank_line l) (drop 2 f)) - 1"
    by simp
qed

lemma read_csv_six:
  assumes "length h = 6" and "list_all (\<lambda>l. length l = 6) ls"
  shows "read_csv 0 (h # ls) = Inr \<lparr>columns = map Val h, rows = infer_rows ls\<rparr>"
proof -
  have nb: "filter (\<lambda>l. \<not> blank_line l) (h # ls) = h # ls"
    using assms by (auto simp: list_all_iff six_fields_not_blank intro!: filter_True)
  have w: "max (length h) (case ls of [] \<Rightarrow> 0 | l # rest \<Rightarrow> length l) = 6"
    using assms by (cases ls) auto
  have le: "\<not> list_ex (\<lambda>l. 6 < length l) ls"
    using assms(2) by (auto simp: list_all_iff list_ex_iff)
  show ?thesis
    unfolding read_csv_def drop_0 nb list.case w Let_def
    using assms le by (simp add: pad_lines_id)
qed

lemma read_csv_skip: "read_csv (Suc n) (l # f) = read_csv n f"
  by (simp add: read_csv_def)

lemma insert_params_six:
  assumes "columns df = map Val schema_columns" and "length r = 6"
  shows "insert_params df t r =
    Some \<lparr>stock_ticker = t, date = r ! 0, open_price = r ! 4, high_price = r ! 2,
          low_price = r ! 3, close_price = r ! 1, volume = r ! 5\<rparr>"
proof -
  from assms(2) obtain a b c d e g where r: "r = [a, b, c, d, e, g]"
    by (auto simp: eval_nat_numeral length_Suc_conv)
  show ?thesis
    using assms(1) by (simp add: r insert_params_def getitem_def schema_columns_def)
qed

lemma insert_rows_keeps:
  "insert_rows ok df t rs st = (r, st') \<Longrightarrow> database st' = database st \<and> printed st' = printed st"
  by (induction rs arbitrary: st)
     (auto simp: cursor_execute_def split: option.splits if_splits)

lemma insert_rows_pending:
  "insert_rows ok df t rs st = (None, st') \<Longrightarrow> pending st' = pending st @ param_rows df t rs"
proof (induction rs arbitrary: st)
  case Nil
  then show ?case by (simp add: param_rows_def map_filter_simps)
next
  case (Cons r rs)
  from Cons.prems obtain p where p: "insert_params df t r = Some p"
    and ok: "ok (database st @ pending st) p"
    and rest: "insert_rows ok df t rs (st\<lparr>pending := pending st @ [p]\<rparr>) = (None, st')"
    by (auto simp: cursor_execute_def split: option.splits if_splits)
  from Cons.IH [OF rest] p show ?case
    by (simp add: param_rows_def map_filter_simps)
qed

lemma insert_rows_success:
  assumes "insert_rows ok df t rs st = (None, st')"
  shows "st' = st\<lparr>pending := pending st @ param_rows df t rs\<rparr>"
  using insert_rows_pending [OF assms] insert_rows_keeps [OF assms]
  by (cases st; cases st') simp

lemma insert_rows_no_constraint:
  "list_all (\<lambda>r. insert_params df t r \<noteq> None) rs \<Longrightarrow>
   insert_rows no_constraint df t rs st = (None, st\<lparr>pending := pending st @ param_rows df t rs\<rparr>)"
  by (induction rs arbitrary: st)
     (auto simp: cursor_execute_def no_constraint_def param_rows_def map_filter_simps)

lemma insert_bank_failure:
  "insert_bank ok fs b st = (Some e, st') \<Longrightarrow> database st' = database st \<and> printed st' = printed st"
  by (auto simp: insert_bank_def split: option.splits sum.splits prod.splits dest: insert_rows_keeps)

lemma insert_banks_append:
  "insert_banks ok fs (xs @ ys) st =
     (case insert_banks ok fs xs st of
        (Some e, st') \<Rightarrow> (Some e, st')
      | (None, st') \<Rightarrow> insert_banks ok fs ys st')"
  by (induction xs arbitrary: st) (auto split: prod.splits option.splits)

lemma length_iterrows: "length (iterrows df) = length (rows df)"
  by (simp add: iterrows_def)

lemma iterrows_widths:
  "list_all (\<lambda>r. length r = n) (rows df) \<Longrightarrow> list_all (\<lambda>r. length r = n) (iterrows df)"
  by (auto simp: iterrows_def list_all_iff)

lemma iterrows_text:
  assumes "r \<in> set (rows df)" and "j < length r" and "j < length (columns df)" and "r ! j = Val s"
  shows "iterrows df = rows df"
proof -
  from assms(1,2,4) have "Val s \<in> set (column_cells df j)"
    by (force simp: column_cells_def)
  moreover have "\<not> int_cell (Val s)" and "\<not> float_cell (Val s)"
    by (simp_all add: int_cell_def float_cell_def)
  ultimately have "\<not> list_all int_cell (column_cells df j)"
    and "\<not> list_all float_cell (column_cells df j)"
    unfolding list_all_iff by blast+
  with assms(3) have "\<not> values_float64 df"
    by (auto simp: values_float64_def list_all_iff)
  then show ?thesis by (simp add: iterrows_def)
qed

lemma load_frame_params:
  assumes "load_frame f = Inr df"
  shows "list_all (\<lambda>r. insert_params df t r \<noteq> None) (iterrows df)"
  using load_frame_Inr(1) [OF assms] iterrows_widths [OF load_frame_Inr(2) [OF assms]]
  by (auto simp: list_all_iff insert_params_six)

lemma insert_bank_no_constraint:
  assumes "fs (path_join csv_folder (historical_file bank)) = Some f"
    and "load_frame f = Inr df"
  shows "insert_bank no_constraint fs (bank, ticker) st =
     (None, \<lparr>database = database st @ pending st @ param_rows df ticker (iterrows df), pending = [],
             printed = printed st @ [InsertedSuccessfully bank ticker]\<rparr>)"
  using assms insert_rows_no_constraint [OF load_frame_params [OF assms(2)], of ticker st]
  by (simp add: insert_bank_def conn_commit_def)

lemma insert_run_single_no_constraint:
  assumes "fs (path_join csv_folder (historical_file bank)) = Some f"
    and "load_frame f = Inr df"
  shows "insert_run no_constraint fs [(bank, ticker)] True db =
     \<lparr>database = db @ param_rows df ticker (iterrows df), pending = [],
      printed = [InsertedSuccessfully bank ticker]\<rparr>"
  using assms insert_bank_no_constraint [where fs = fs and f = f and df = df and bank = bank]
  by (simp add: insert_run_def conn_close_def)

lemma insert_bank_success:
  assumes "fs (path_join csv_folder (historical_file (fst b))) = Some f"
    and "load_frame f = Inr df"
    and "insert_bank ok fs b st = (None, st')"
  shows "st' = \<lparr>database = database st @ pending st @ param_rows df (snd b) (iterrows df), pending = [],
             printed = printed st @ [InsertedSuccessfully (fst b) (snd b)]\<rparr>"
proof -
  from assms obtain st1 where 1: "insert_rows ok df (snd b) (iterrows df) st = (None, st1)"
    and 2: "st' = (conn_commit st1)\<lparr>printed := printed st1 @ [InsertedSuccessfully (fst b) (snd b)]\<rparr>"
    by (auto simp: insert_bank_def split: prod.splits option.splits)
  from insert_rows_success [OF 1] 2 show ?thesis
    by (simp add: conn_commit_def)
qed

lemma insert_rows_duplicate_key:
  assumes "insert_params df t r = Some p"
    and "row_key p \<in> set (map row_key (database st @ pending st))"
  shows "insert_rows unique_ticker_date df t (r # rs) st = (Some DatabaseError, st)"
  using assms by (simp add: cursor_execute_def unique_ticker_date_def)

lemma insert_rows_append:
  "insert_rows ok df t (xs @ ys) st =
     (case insert_rows ok df t xs st of
        (Some e, st') \<Rightarrow> (Some e, st')
      | (None, st') \<Rightarrow> insert_rows ok df t ys st')"
  by (induction xs arbitrary: st) (auto split: prod.splits option.splits sum.splits)

lemma insert_bank_prefix:
  assumes "insert_bank ok fs b st = (r, st')"
  shows "prefix (database st) (database st')"
proof (cases r)
  case None
  show ?thesis
  proof (cases "fs (path_join csv_folder (historical_file (fst b)))")
    case absent: None
    with assms show ?thesis by (simp add: insert_bank_def)
  next
    case (Some f)
    with assms None obtain df where load: "load_frame f = Inr df"
      by (auto simp: insert_bank_def split: sum.splits)
    from assms None have "insert_bank ok fs b st = (None, st')" by simp
    from insert_bank_success [where fs = fs and f = f and df = df and b = b, OF Some load this]
    show ?thesis by simp
  qed
next
  case (Some e)
  with assms insert_bank_failure [of ok fs b st e st'] show ?thesis by simp
qed

lemma insert_banks_prefix:
  "insert_banks ok fs bs st = (r, st') \<Longrightarrow> prefix (database st) (database st')"
proof (induction bs arbitrary: st)
  case Nil
  then show ?case by simp
next
  case (Cons b bs)
  obtain r1 st1 where b: "insert_bank ok fs b st = (r1, st1)"
    by (cases "insert_bank ok fs b st")
  note p1 = insert_bank_prefix [OF b]
  show ?case
  proof (cases r1)
    case None
    with Cons.prems b have "insert_banks ok fs bs st1 = (r, st')" by simp
    from Cons.IH [OF this] p1 show ?thesis by (rule prefix_order.order_trans [rotated])
  next
    case (Some e)
    with Cons.prems b p1 show ?thesis by simp
  qed
qed

lemma insert_banks_stops:
  assumes "insert_banks ok fs bs1 st = (None, st1)"
    and "insert_bank ok fs b st1 = (Some e, st2)"
  shows "insert_banks ok fs (bs1 @ b # bs2) st = (Some e, st2)"
  using assms by (simp add: insert_banks_append)

lemma insert_bank_printed:
  assumes "insert_bank ok fs b st = (None, st')"
  shows "printed st' = printed st @
     (if fs (path_join csv_folder (historical_file (fst b))) = None then []
      else [InsertedSuccessfully (fst b) (snd b)])"
proof (cases "fs (path_join csv_folder (historical_file (fst b)))")
  case None
  with assms show ?thesis by (simp add: insert_bank_def)
next
  case (Some f)
  with assms obtain df where load: "load_frame f = Inr df"
    by (auto simp: insert_bank_def split: sum.splits)
  from insert_bank_success [where fs = fs and f = f and df = df and b = b, OF Some load assms] Some
  show ?thesis by simp
qed

lemma insert_banks_printed:
  "insert_banks ok fs cat st = (None, st') \<Longrightarrow>
   printed st' = printed st @
     map (\<lambda>b. InsertedSuccessfully (fst b) (snd b))
       (filter (\<lambda>b. fs (path_join csv_folder (historical_file (fst b))) \<noteq> None) cat)"
proof (induction cat arbitrary: st)
  case Nil
  then show ?case by simp
next
  case (Cons b bs)
  from Cons.prems obtain st1 where b: "insert_bank ok fs b st = (None, st1)"
    and rest: "insert_banks ok fs bs st1 = (None, st')"
    by (auto split: prod.splits option.splits)
  from Cons.IH [OF rest] insert_bank_printed [OF b] show ?case by simp
qed

lemma insert_params_ticker: "insert_params df t r = Some p \<Longrightarrow> stock_ticker p = t"
  by (auto simp: insert_params_def split: Option.bind_splits)

lemma insert_rows_tickers:
  "insert_rows ok df t rs st = (r, st') \<Longrightarrow>
   set (map stock_ticker (pending st')) \<subseteq> insert t (set (map stock_ticker (pending st)))"
proof (induction rs arbitrary: st)
  case Nil
  then show ?case by auto
next
  case (Cons x xs)
  show ?case
  proof (cases "insert_params df t x")
    case None
    with Cons.prems show ?thesis by auto
  next
    case (Some p)
    show ?thesis
    proof (cases "ok (database st @ pending st) p")
      case True
      with Some Cons.prems
      have "insert_rows ok df t xs (st\<lparr>pending := pending st @ [p]\<rparr>) = (r, st')"
        by (simp add: cursor_execute_def)
      from Cons.IH [OF this] insert_params_ticker [OF Some] show ?thesis by auto
    next
      case False
      with Some Cons.prems show ?thesis by (auto simp: cursor_execute_def)
    qed
  qed
qed

lemma insert_bank_tickers:
  assumes "insert_bank ok fs b st = (r, st')"
  shows "set (map stock_ticker (drop n (database st'))) \<union> set (map stock_ticker (pending st'))
       \<subseteq> insert (snd b) (set (map stock_ticker (drop n (database st))) \<union> set (map stock_ticker (pending st)))"
proof (cases "fs (path_join csv_folder (historical_file (fst b)))")
  case None
  with assms show ?thesis by (auto simp: insert_bank_def)
next
  case (Some f)
  show ?thesis
  proof (cases "load_frame f")
    case (Inl e)
    with Some assms show ?thesis by (auto simp: insert_bank_def)
  next
    case (Inr df)
    obtain r1 st1 where rows: "insert_rows ok df (snd b) (iterrows df) st = (r1, st1)"
      by (cases "insert_rows ok df (snd b) (iterrows df) st")
    note t = insert_rows_tickers [OF rows] and k = insert_rows_keeps [OF rows]
    show ?thesis
    proof (cases r1)
      case None
      with Some Inr rows assms
      have "st' = (conn_commit st1)\<lparr>printed := printed st1 @ [InsertedSuccessfully (fst b) (snd b)]\<rparr>"
        by (simp add: insert_bank_def)
      with t k show ?thesis by (auto simp: conn_commit_def dest: in_set_dropD)
    next
      case (Some e)
      with \<open>fs _ = Some f\<close> Inr rows assms have "st' = st1" by (simp add: insert_bank_def)
      with t k show ?thesis by auto
    qed
  qed
qed

lemma insert_banks_tickers:
  "insert_banks ok fs cat st = (r, st') \<Longrightarrow>
   set (map stock_ticker (drop n (database st'))) \<union> set (map stock_ticker (pending st'))
     \<subseteq> snd ` set cat \<union>
       (set (map stock_ticker (drop n (database st))) \<union> set (map stock_ticker (pending st)))"
proof (induction cat arbitrary: st)
  case Nil
  then show ?case by auto
next
  case (Cons b bs)
  obtain r1 st1 where b: "insert_bank ok fs b st = (r1, st1)"
    by (cases "insert_bank ok fs b st")
  note t = insert_bank_tickers [OF b, of n]
  have s: "snd ` set (b # bs) = insert (snd b) (snd ` set bs)" by simp
  show ?case
  proof (cases r1)
    case None
    with Cons.prems b have "insert_banks ok fs bs st1 = (r, st')" by simp
    from Cons.IH [OF this] t s show ?thesis by blast
  next
    case (Some e)
    with Cons.prems b have "st' = st1" by simp
    with t s show ?thesis by blast
  qed
qed

lemma insert_run_database:
  "database (insert_run ok fs cat reachable db) =
     (if reachable then database (snd (insert_banks ok fs cat \<lparr>database = db, pending = [], printed = []\<rparr>))
      else db)"
  by (simp add: insert_run_def conn_close_def split: prod.splits option.splits)

lemma param_rows_six:
  "columns df = map Val schema_columns \<Longrightarrow> list_all (\<lambda>r. length r = 6) rs \<Longrightarrow>
   param_rows df t rs =
     map (\<lambda>r. \<lparr>stock_ticker = t, date = r ! 0, open_price = r ! 4, high_price = r ! 2,
                low_price = r ! 3, close_price = r ! 1, volume = r ! 5\<rparr>) rs"
  by (induction rs) (simp_all add: param_rows_def map_filter_simps insert_params_six)

lemma load_frame_six:
  assumes "load_frame f = Inr df"
    and "filter (\<lambda>l. \<not> blank_line l) (drop 2 f) = h # ls"
    and "list_all (\<lambda>l. length l = 6) ls"
  shows "rows df = infer_rows ls"
proof -
  define w where "w = max (length h) (case ls of [] \<Rightarrow> 0 | l # rest \<Rightarrow> length l)"
  from assms(1,2) have len: "length h = 6"
    and df: "rows df = infer_rows (map (\<lambda>l. drop (w - length h) (pad_line w l)) ls)"
    by (auto simp: load_frame_def read_csv_def set_columns_def schema_columns_def w_def Let_def
        split: if_splits)
  have w: "w = 6" using len assms(3) by (cases ls) (auto simp: w_def)
  show ?thesis using df assms(3) by (simp add: w len pad_lines_id)
qed

lemma int_text_float_text:
  assumes "int_text s"
  shows "float_text s"
proof -
  from assms have ne: "unsigned (strip_spaces s) \<noteq> []"
    and dig: "\<forall>c \<in> set (unsigned (strip_spaces s)). is_digit c"
    by (auto simp: int_text_def all_digits_def list_all_iff)
  from dig have t: "takeWhile is_digit (unsigned (strip_spaces s)) = unsigned (strip_spaces s)"
    and d: "dropWhile is_digit (unsigned (strip_spaces s)) = []"
    by (simp_all add: takeWhile_eq_all_conv)
  show ?thesis
    using ne by (simp add: float_text_def decimal_text_def int_digits_def after_int_def
        fraction_digits_def after_fraction_def exponent_ok_def t d)
qed

lemma infer_type_text:
  assumes "s \<in> set col" and "\<not> is_na s" and "\<not> float_text s" and "\<not> bool_text s"
  shows "infer_type col = TextColumn"
proof -
  from assms(1,2) have p: "s \<in> set (filter (\<lambda>s. \<not> is_na s) col)" by simp
  from assms(3) have "\<not> int_text s" using int_text_float_text by blast
  with p assms(3,4) show ?thesis
    by (auto simp: infer_type_def Let_def list_all_iff)
qed

lemma insert_banks_skip:
  assumes "fs (path_join csv_folder (historical_file bank)) = None"
  shows "insert_banks ok fs (xs @ (bank, ticker) # ys) st = insert_banks ok fs (xs @ ys) st"
  using assms
  by (auto simp: insert_banks_append insert_bank_def split: prod.splits option.splits)

lemma insert_bank_pending_empty:
  assumes "insert_bank ok fs b st = (None, st')" and "pending st = []"
  shows "pending st' = []"
proof (cases "fs (path_join csv_folder (historical_file (fst b)))")
  case None
  with assms show ?thesis by (simp add: insert_bank_def)
next
  case (Some f)
  with assms obtain df where load: "load_frame f = Inr df"
    by (auto simp: insert_bank_def split: sum.splits)
  from insert_bank_success [where fs = fs and f = f and df = df and b = b, OF Some load assms(1)]
  show ?thesis by simp
qed

lemma insert_banks_pending_empty:
  "insert_banks ok fs bs st = (None, st') \<Longrightarrow> pending st = [] \<Longrightarrow> pending st' = []"
proof (induction bs arbitrary: st)
  case Nil
  then show ?case by simp
next
  case (Cons b bs)
  from Cons.prems(1) obtain st1 where b: "insert_bank ok fs b st = (None, st1)"
    and rest: "insert_banks ok fs bs st1 = (None, st')"
    by (auto split: prod.splits option.splits)
  from Cons.IH [OF rest insert_bank_pending_empty [OF b Cons.prems(2)]] show ?case .
qed

lemma insert_bank_row_failure:
  assumes "fs (path_join csv_folder (historical_file (fst b))) = Some f"
    and "load_frame f = Inr df"
    and "iterrows df = rsa @ r # rsb"
    and "insert_rows ok df (snd b) rsa st = (None, sta)"
    and "insert_params df (snd b) r = Some p"
    and "\<not> ok (database sta @ pending sta) p"
  shows "insert_bank ok fs b st = (Some DatabaseError, sta)"
    and "sta = st\<lparr>pending := pending st @ param_rows df (snd b) rsa\<rparr>"
proof -
  show sta: "sta = st\<lparr>pending := pending st @ param_rows df (snd b) rsa\<rparr>"
    using insert_rows_success [OF assms(4)] .
  have "insert_rows ok df (snd b) (rsa @ r # rsb) st = (Some DatabaseError, sta)"
    using assms(4-6) by (simp add: insert_rows_append cursor_execute_def)
  with assms(1-3) show "insert_bank ok fs b st = (Some DatabaseError, sta)"
    by (simp add: insert_bank_def)
qed

lemma save_all_five:
  "map (\<lambda>b. save_all cwd (download_all feed bank_tickers) fs
               (path_join cwd (historical_file (fst b)))) bank_tickers =
   map (\<lambda>b. Some (feed (snd b))) bank_tickers"
  by (simp add: save_all_def download_all_def bank_tickers_def path_join_def historical_file_def)

lemma insert_three_no_constraint:
  assumes "fs (path_join csv_folder (historical_file ''TD'')) = Some ft"
    and "fs (path_join csv_folder (historical_file ''Scotiabank'')) = Some fb"
    and "fs (path_join csv_folder (historical_file ''RBC'')) = Some fr"
    and "load_frame ft = Inr dft" and "load_frame fb = Inr dfb" and "load_frame fr = Inr dfr"
  shows "insert_cell no_constraint fs True db =
     \<lparr>database = db @ param_rows dft ''TD.TO'' (iterrows dft) @ param_rows dfb ''BNS.TO'' (iterrows dfb) @
                 param_rows dfr ''RY.TO'' (iterrows dfr),
      pending = [],
      printed = [InsertedSuccessfully ''TD'' ''TD.TO'', InsertedSuccessfully ''Scotiabank'' ''BNS.TO'',
                 InsertedSuccessfully ''RBC'' ''RY.TO'']\<rparr>"
  using assms
    insert_bank_no_constraint [where fs = fs and f = ft and df = dft and bank = "''TD''"]
    insert_bank_no_constraint [where fs = fs and f = fb and df = dfb and bank = "''Scotiabank''"]
    insert_bank_no_constraint [where fs = fs and f = fr and df = dfr and bank = "''RBC''"]
  by (simp add: insert_cell_def insert_run_def bank_tickers_insert_def conn_close_def)




section \<open>The insertion is not idempotent\<close>

text \<open>
  Claim C1 says that persisting an identical batch a second time leaves the stored rows as
  after the first time, with no duplicate (ticker, date) key and no error. The statement
  of \<^verbatim>\<open>insert_query\<close> is a plain INSERT, so this fails on the TD file: on a table without
  constraint the second run doubles the four rows and repeats every key; on a table with
  the uniqueness constraint the second run raises at its first row.
\<close>

theorem insert_twice_counterexample:
  "length (database (insert_run no_constraint td_folder [(''TD'', ''TD.TO'')] True [])) = 4 \<and>
   length (database (insert_run no_constraint td_folder [(''TD'', ''TD.TO'')] True
      (database (insert_run no_constraint td_folder [(''TD'', ''TD.TO'')] True [])))) = 8 \<and>
   \<not> distinct (map row_key (database (insert_run no_constraint td_folder [(''TD'', ''TD.TO'')] True
      (database (insert_run no_constraint td_folder [(''TD'', ''TD.TO'')] True []))))) \<and>
   printed (insert_run unique_ticker_date td_folder [(''TD'', ''TD.TO'')] True
      (database (insert_run unique_ticker_date td_folder [(''TD'', ''TD.TO'')] True []))) =
     [ErrorInserting DatabaseError]"
  by code_simp

text \<open>
  C1 as amended: for a ticker whose file loads, a second run over a table without
  constraint appends every row of the batch once more; over a table with the uniqueness
  constraint on (ticker, date), after a first run that succeeded on a batch that is not
  empty, the second run raises a database error at its first row, prints it, and leaves
  the stored rows as the first run left them.
\<close>

theorem second_insert_appends_or_fails:
  assumes hasfile: "fs (path_join csv_folder (historical_file bank)) = Some f"
    and load: "load_frame f = Inr df"
  shows "database (insert_run no_constraint fs [(bank, ticker)] True
             (database (insert_run no_constraint fs [(bank, ticker)] True db))) =
           db @ param_rows df ticker (iterrows df) @ param_rows df ticker (iterrows df)
       \<and> (rows df \<noteq> [] \<and>
          printed (insert_run unique_ticker_date fs [(bank, ticker)] True db) =
            [InsertedSuccessfully bank ticker] \<longrightarrow>
          insert_run unique_ticker_date fs [(bank, ticker)] True
             (database (insert_run unique_ticker_date fs [(bank, ticker)] True db)) =
            \<lparr>database = database (insert_run unique_ticker_date fs [(bank, ticker)] True db),
             pending = [], printed = [ErrorInserting DatabaseError]\<rparr>)"
proof (intro conjI impI)
  show "database (insert_run no_constraint fs [(bank, ticker)] True
             (database (insert_run no_constraint fs [(bank, ticker)] True db))) =
           db @ param_rows df ticker (iterrows df) @ param_rows df ticker (iterrows df)"
    using hasfile load
    by (simp add: insert_run_single_no_constraint [where fs = fs and f = f and df = df])
next
  let ?init = "\<lparr>database = db, pending = [], printed = []\<rparr>"
  let ?B = "param_rows df ticker (iterrows df)"
  assume a: "rows df \<noteq> [] \<and>
          printed (insert_run unique_ticker_date fs [(bank, ticker)] True db) =
            [InsertedSuccessfully bank ticker]"
  obtain res st1 where r: "insert_bank unique_ticker_date fs (bank, ticker) ?init = (res, st1)"
    by (cases "insert_bank unique_ticker_date fs (bank, ticker) ?init")
  have "res = None"
  proof (cases res)
    case (Some e)
    with r a insert_bank_failure [of unique_ticker_date fs "(bank, ticker)" ?init e st1]
    show ?thesis by (simp add: insert_run_def)
  qed simp
  with r have ok1: "insert_bank unique_ticker_date fs (bank, ticker) ?init = (None, st1)" by simp
  from insert_bank_success [where fs = fs and f = f and df = df, OF _ load ok1] hasfile
  have st1: "st1 = \<lparr>database = db @ ?B, pending = [],
                    printed = [InsertedSuccessfully bank ticker]\<rparr>" by simp
  have first: "database (insert_run unique_ticker_date fs [(bank, ticker)] True db) = db @ ?B"
    using ok1 st1 by (simp add: insert_run_def conn_close_def)
  from a have "length (iterrows df) \<noteq> 0" by (simp add: length_iterrows)
  then obtain r rs where rows: "iterrows df = r # rs" by (cases "iterrows df") auto
  from load_frame_params [OF load, of ticker] rows obtain p where p: "insert_params df ticker r = Some p"
    by auto
  have inB: "p \<in> set ?B" using rows p by (simp add: param_rows_def map_filter_simps)
  let ?init2 = "\<lparr>database = db @ ?B, pending = [], printed = []\<rparr>"
  have "insert_rows unique_ticker_date df ticker (r # rs) ?init2 = (Some DatabaseError, ?init2)"
    using inB by (intro insert_rows_duplicate_key [OF p]) auto
  then have "insert_rows unique_ticker_date df ticker (iterrows df) ?init2 = (Some DatabaseError, ?init2)"
    by (simp add: rows)
  then have "insert_bank unique_ticker_date fs (bank, ticker) ?init2 = (Some DatabaseError, ?init2)"
    using hasfile load by (simp add: insert_bank_def)
  then show "insert_run unique_ticker_date fs [(bank, ticker)] True
             (database (insert_run unique_ticker_date fs [(bank, ticker)] True db)) =
            \<lparr>database = database (insert_run unique_ticker_date fs [(bank, ticker)] True db),
             pending = [], printed = [ErrorInserting DatabaseError]\<rparr>"
    unfolding first by (simp add: insert_run_def)
qed

theorem second_insert_witness:
  "td_folder (path_join csv_folder (historical_file ''TD'')) = Some td_file \<and>
   load_frame td_file = Inr td_frame \<and>
   rows td_frame \<noteq> [] \<and>
   printed (insert_run unique_ticker_date td_folder [(''TD'', ''TD.TO'')] True []) =
     [InsertedSuccessfully ''TD'' ''TD.TO''] \<and>
   database (insert_run no_constraint td_folder [(''TD'', ''TD.TO'')] True
      (database (insert_run no_constraint td_folder [(''TD'', ''TD.TO'')] True []))) =
     [] @ param_rows td_frame ''TD.TO'' (iterrows td_frame) @ param_rows td_frame ''TD.TO'' (iterrows td_frame) \<and>
   insert_run unique_ticker_date td_folder [(''TD'', ''TD.TO'')] True
      (database (insert_run unique_ticker_date td_folder [(''TD'', ''TD.TO'')] True [])) =
     \<lparr>database = database (insert_run unique_ticker_date td_folder [(''TD'', ''TD.TO'')] True []),
      pending = [], printed = [ErrorInserting DatabaseError]\<rparr>"
proof -
  have h1: "td_folder (path_join csv_folder (historical_file ''TD'')) = Some td_file"
    by code_simp
  have h2: "load_frame td_file = Inr td_frame"
    by code_simp
  have h3: "rows td_frame \<noteq> []"
    by code_simp
  have h4: "printed (insert_run unique_ticker_date td_folder [(''TD'', ''TD.TO'')] True []) =
     [InsertedSuccessfully ''TD'' ''TD.TO'']"
    by code_simp
  from second_insert_appends_or_fails
    [where fs = td_folder and bank = "''TD''" and f = td_file and df = td_frame
       and ticker = "''TD.TO''" and db = "[]", OF h1 h2] h1 h2 h3 h4
  show ?thesis by blast
qed

section \<open>The end-to-end scenario\<close>

text \<open>
  Claim C5 says that for the catalog TD -> TD.TO and a feed of two header-artifact rows
  and four daily bars the store holds four rows keyed by ("TD", date). The loop hands
  \<^verbatim>\<open>ticker\<close>, the provider symbol, to the statement: no stored row carries the name TD.
\<close>

theorem end_to_end_counterexample:
  "map stock_ticker (database (insert_run unique_ticker_date td_folder [(''TD'', ''TD.TO'')] True [])) =
     [''TD.TO'', ''TD.TO'', ''TD.TO'', ''TD.TO''] \<and>
   (''TD'', Val ''2020-01-02'') \<notin>
     set (map row_key (database (insert_run unique_ticker_date td_folder [(''TD'', ''TD.TO'')] True [])))"
  by code_simp

text \<open>
  C5 as amended: in that scenario the download written to the folder is the TD file (the
  three header lines and the four bars), the loader emits the four bars under the
  schema's column names, and the store holds
  exactly four rows keyed by ("TD.TO", date), the provider symbol, with no key twice;
  this holds with and without the uniqueness constraint.
\<close>

theorem end_to_end_td_scenario:
  "save_all csv_folder (download_all (\<lambda>t. td_file) [(''TD'', ''TD.TO'')]) Map.empty =
     td_folder \<and>
   load_frame td_file =
     Inr \<lparr>columns = map Val schema_columns, rows = [td_bar1, td_bar2, td_bar3, td_bar4]\<rparr> \<and>
   insert_run unique_ticker_date td_folder [(''TD'', ''TD.TO'')] True [] =
     \<lparr>database = map (\<lambda>r. \<lparr>stock_ticker = ''TD.TO'', date = r ! 0, open_price = r ! 4,
                            high_price = r ! 2, low_price = r ! 3, close_price = r ! 1,
                            volume = r ! 5\<rparr>) [td_bar1, td_bar2, td_bar3, td_bar4],
      pending = [],
      printed = [InsertedSuccessfully ''TD'' ''TD.TO'']\<rparr> \<and>
   insert_run no_constraint td_folder [(''TD'', ''TD.TO'')] True [] =
     insert_run unique_ticker_date td_folder [(''TD'', ''TD.TO'')] True [] \<and>
   map row_key (database (insert_run unique_ticker_date td_folder [(''TD'', ''TD.TO'')] True [])) =
     [(''TD.TO'', Val ''2020-01-02''), (''TD.TO'', Val ''2020-01-03''),
      (''TD.TO'', Val ''2020-01-06''), (''TD.TO'', Val ''2020-01-07'')] \<and>
   distinct (map row_key (database (insert_run unique_ticker_date td_folder [(''TD'', ''TD.TO'')] True [])))"
proof (intro conjI)
  show "save_all csv_folder (download_all (\<lambda>t. td_file) [(''TD'', ''TD.TO'')]) Map.empty =
     td_folder"
    by (simp add: save_all_def download_all_def td_folder_def)
qed code_simp+

section \<open>One handler around the whole loop\<close>

text \<open>
  Claim C2 says that a failure for one ticker is caught locally and recorded against that
  ticker, and that the loop goes on with the next ticker. The only handler encloses the
  whole loop. With a TD file that lacks a column and a good Scotiabank file, the run over
  the cell's catalog stops at TD and stores nothing, while Scotiabank alone would have
  been stored.
\<close>

theorem failure_halts_counterexample:
  "insert_cell no_constraint two_banks_folder True [] =
     \<lparr>database = [], pending = [], printed = [ErrorInserting LengthMismatch]\<rparr> \<and>
   insert_run no_constraint two_banks_folder [(''Scotiabank'', ''BNS.TO'')] True [] =
     \<lparr>database = [\<lparr>stock_ticker = ''BNS.TO'', date = Val ''2020-01-02'',
                   open_price = FloatVal 55125 3, high_price = FloatVal 555 1,
                   low_price = FloatVal 55 0, close_price = FloatVal 5525 2,
                   volume = IntVal 1500000\<rparr>],
      pending = [], printed = [InsertedSuccessfully ''Scotiabank'' ''BNS.TO'']\<rparr>"
  by code_simp

text \<open>
  C2 as amended: when the tickers before a ticker went through and that ticker raises,
  the run ends there: its result is the state at the failure with one error line added
  (the line carries the exception, not the ticker), whatever tickers follow in the
  catalog; the rows the earlier tickers committed stay stored.
\<close>

theorem failure_ends_the_loop:
  assumes "insert_banks ok fs bs1 \<lparr>database = db, pending = [], printed = []\<rparr> = (None, st1)"
    and "insert_bank ok fs b st1 = (Some e, st2)"
  shows "insert_run ok fs (bs1 @ b # bs2) True db = st2\<lparr>printed := printed st1 @ [ErrorInserting e]\<rparr>
       \<and> database st2 = database st1"
  using insert_banks_stops [OF assms, of bs2] insert_bank_failure [OF assms(2)]
  by (simp add: insert_run_def)

theorem failure_ends_the_loop_witness:
  "insert_banks no_constraint two_banks_folder [(''Scotiabank'', ''BNS.TO'')]
      \<lparr>database = [], pending = [], printed = []\<rparr> =
     (None, \<lparr>database = param_rows \<lparr>columns = map Val schema_columns, rows = [bns_bar1]\<rparr> ''BNS.TO'' [bns_bar1],
             pending = [], printed = [InsertedSuccessfully ''Scotiabank'' ''BNS.TO'']\<rparr>) \<and>
   insert_bank no_constraint two_banks_folder (''TD'', ''TD.TO'')
      \<lparr>database = param_rows \<lparr>columns = map Val schema_columns, rows = [bns_bar1]\<rparr> ''BNS.TO'' [bns_bar1],
       pending = [], printed = [InsertedSuccessfully ''Scotiabank'' ''BNS.TO'']\<rparr> =
     (Some LengthMismatch,
      \<lparr>database = param_rows \<lparr>columns = map Val schema_columns, rows = [bns_bar1]\<rparr> ''BNS.TO'' [bns_bar1],
       pending = [], printed = [InsertedSuccessfully ''Scotiabank'' ''BNS.TO'']\<rparr>) \<and>
   insert_run no_constraint two_banks_folder
      ([(''Scotiabank'', ''BNS.TO'')] @ (''TD'', ''TD.TO'') # [(''RBC'', ''RY.TO'')]) True [] =
     \<lparr>database = param_rows \<lparr>columns = map Val schema_columns, rows = [bns_bar1]\<rparr> ''BNS.TO'' [bns_bar1],
      pending = [],
      printed = [InsertedSuccessfully ''Scotiabank'' ''BNS.TO'', ErrorInserting LengthMismatch]\<rparr>"
proof -
  let ?st1 = "\<lparr>database = param_rows \<lparr>columns = map Val schema_columns, rows = [bns_bar1]\<rparr> ''BNS.TO'' [bns_bar1],
             pending = [], printed = [InsertedSuccessfully ''Scotiabank'' ''BNS.TO'']\<rparr>"
  have h1: "insert_banks no_constraint two_banks_folder [(''Scotiabank'', ''BNS.TO'')]
      \<lparr>database = [], pending = [], printed = []\<rparr> = (None, ?st1)"
    by code_simp
  have h2: "insert_bank no_constraint two_banks_folder (''TD'', ''TD.TO'') ?st1 =
     (Some LengthMismatch, ?st1)"
    by code_simp
  from failure_ends_the_loop [OF h1 h2, of "[(''RBC'', ''RY.TO'')]"] h1 h2
  show ?thesis by simp
qed

section \<open>Commit per ticker\<close>




section \<open>A row that fails\<close>

text \<open>
  Claim C6 says that a row that fails to be written is caught and reported for that row
  only and that the other rows of its batch are still attempted and written. The inner
  loop has no handler. With the uniqueness constraint and a TD file in which the first
  day stands twice, the second row raises: nothing of the batch is stored, although the
  third row would have been accepted by the table.
\<close>

theorem row_failure_counterexample:
  "insert_run unique_ticker_date repeated_folder [(''TD'', ''TD.TO'')] True [] =
     \<lparr>database = [],
      pending = [\<lparr>stock_ticker = ''TD.TO'', date = Val ''2020-01-02'',
                  open_price = FloatVal 5778106587137342 14,
                  high_price = FloatVal 5799416701667758 14,
                  low_price = FloatVal 57560076551433816 15,
                  close_price = FloatVal 57946807861328125 15,
                  volume = IntVal 2207900\<rparr>],
      printed = [ErrorInserting DatabaseError]\<rparr> \<and>
   unique_ticker_date [] \<lparr>stock_ticker = ''TD.TO'', date = Val ''2020-01-03'',
                  open_price = FloatVal 5767844009831924 14,
                  high_price = FloatVal 5794678243435267 14,
                  low_price = FloatVal 5754426893030253 14,
                  close_price = FloatVal 5789942932128906 14,
                  volume = IntVal 3472900\<rparr>"
  by code_simp

text \<open>
  C6 as amended: a row the table refuses ends its batch and the run. When the tickers
  before its ticker went through, the rows before it in the batch were executed and the
  INSERT of that row raises, then no later row of the batch is attempted, the rows of the
  batch executed before it stay uncommitted, the stored rows are exactly those stored
  when the batch began (the rows from before the run, followed by what the earlier
  tickers committed), the tickers that follow are not processed, and one database error
  is printed after the lines of the earlier tickers.
\<close>

theorem row_failure_ends_the_batch:
  assumes "insert_banks ok fs xs \<lparr>database = db, pending = [], printed = []\<rparr> = (None, stz)"
    and "fs (path_join csv_folder (historical_file bank)) = Some f"
    and "load_frame f = Inr df"
    and "iterrows df = rsa @ r # rsb"
    and "insert_rows ok df t rsa stz = (None, sta)"
    and "insert_params df t r = Some p"
    and "\<not> ok (database sta @ pending sta) p"
  shows "insert_run ok fs (xs @ (bank, t) # ys) True db =
           \<lparr>database = database stz, pending = param_rows df t rsa,
            printed = printed stz @ [ErrorInserting DatabaseError]\<rparr> \<and>
         prefix db (database stz)"
proof -
  have p0: "pending stz = []"
    using insert_banks_pending_empty [OF assms(1)] by simp
  note f = insert_bank_row_failure
    [where b = "(bank, t)" and fs = fs and f = f and df = df and ok = ok and st = stz
       and sta = sta and rsa = rsa and r = r and rsb = rsb and p = p]
  from f(1) assms(2-7) have b: "insert_bank ok fs (bank, t) stz = (Some DatabaseError, sta)"
    by simp
  from f(2) assms(2-7) p0 have sta: "sta = stz\<lparr>pending := param_rows df t rsa\<rparr>"
    by simp
  from insert_banks_stops [OF assms(1) b, of ys]
  have "insert_run ok fs (xs @ (bank, t) # ys) True db =
           \<lparr>database = database stz, pending = param_rows df t rsa,
            printed = printed stz @ [ErrorInserting DatabaseError]\<rparr>"
    by (simp add: insert_run_def sta)
  moreover have "prefix db (database stz)"
    using insert_banks_prefix [OF assms(1)] by simp
  ultimately show ?thesis by simp
qed

theorem row_failure_witness:
  "insert_banks unique_ticker_date td_then_repeated_folder [(''TD'', ''TD.TO'')]
      \<lparr>database = [], pending = [], printed = []\<rparr> =
     (None, \<lparr>database = param_rows td_frame ''TD.TO'' (iterrows td_frame), pending = [],
             printed = [InsertedSuccessfully ''TD'' ''TD.TO'']\<rparr>) \<and>
   td_then_repeated_folder (path_join csv_folder (historical_file ''Scotiabank'')) =
     Some bns_file_repeated \<and>
   load_frame bns_file_repeated =
     Inr \<lparr>columns = map Val schema_columns, rows = [bns_bar1, bns_bar1]\<rparr> \<and>
   iterrows \<lparr>columns = map Val schema_columns, rows = [bns_bar1, bns_bar1]\<rparr> =
     [bns_bar1] @ bns_bar1 # [] \<and>
   insert_rows unique_ticker_date \<lparr>columns = map Val schema_columns, rows = [bns_bar1, bns_bar1]\<rparr>
      ''BNS.TO'' [bns_bar1]
      \<lparr>database = param_rows td_frame ''TD.TO'' (iterrows td_frame), pending = [],
       printed = [InsertedSuccessfully ''TD'' ''TD.TO'']\<rparr> =
     (None, \<lparr>database = param_rows td_frame ''TD.TO'' (iterrows td_frame), pending = bns_stored,
             printed = [InsertedSuccessfully ''TD'' ''TD.TO'']\<rparr>) \<and>
   insert_params \<lparr>columns = map Val schema_columns, rows = [bns_bar1, bns_bar1]\<rparr> ''BNS.TO'' bns_bar1 =
     Some (hd bns_stored) \<and>
   \<not> unique_ticker_date
       (database \<lparr>database = param_rows td_frame ''TD.TO'' (iterrows td_frame), pending = bns_stored,
                  printed = [InsertedSuccessfully ''TD'' ''TD.TO'']\<rparr> @
        pending \<lparr>database = param_rows td_frame ''TD.TO'' (iterrows td_frame), pending = bns_stored,
                 printed = [InsertedSuccessfully ''TD'' ''TD.TO'']\<rparr>)
       (hd bns_stored) \<and>
   insert_run unique_ticker_date td_then_repeated_folder
      ([(''TD'', ''TD.TO'')] @ (''Scotiabank'', ''BNS.TO'') # [(''RBC'', ''RY.TO'')]) True [] =
     \<lparr>database = database \<lparr>database = param_rows td_frame ''TD.TO'' (iterrows td_frame), pending = [],
                             printed = [InsertedSuccessfully ''TD'' ''TD.TO'']\<rparr>,
      pending = param_rows \<lparr>columns = map Val schema_columns, rows = [bns_bar1, bns_bar1]\<rparr>
                  ''BNS.TO'' [bns_bar1],
      printed = printed \<lparr>database = param_rows td_frame ''TD.TO'' (iterrows td_frame), pending = [],
                          printed = [InsertedSuccessfully ''TD'' ''TD.TO'']\<rparr> @
                [ErrorInserting DatabaseError]\<rparr> \<and>
   length (database (insert_run unique_ticker_date td_then_repeated_folder
      ([(''TD'', ''TD.TO'')] @ (''Scotiabank'', ''BNS.TO'') # [(''RBC'', ''RY.TO'')]) True [])) = 4"
proof -
  let ?df = "\<lparr>columns = map Val schema_columns, rows = [bns_bar1, bns_bar1]\<rparr>"
  let ?stz = "\<lparr>database = param_rows td_frame ''TD.TO'' (iterrows td_frame), pending = [],
              printed = [InsertedSuccessfully ''TD'' ''TD.TO'']\<rparr>"
  let ?sta = "\<lparr>database = param_rows td_frame ''TD.TO'' (iterrows td_frame), pending = bns_stored,
              printed = [InsertedSuccessfully ''TD'' ''TD.TO'']\<rparr>"
  have h1: "insert_banks unique_ticker_date td_then_repeated_folder [(''TD'', ''TD.TO'')]
      \<lparr>database = [], pending = [], printed = []\<rparr> = (None, ?stz)"
    by code_simp
  have h2: "td_then_repeated_folder (path_join csv_folder (historical_file ''Scotiabank'')) =
     Some bns_file_repeated"
    by code_simp
  have h3: "load_frame bns_file_repeated = Inr ?df"
    by code_simp
  have h4: "iterrows ?df = [bns_bar1] @ bns_bar1 # []"
    by code_simp
  have h5: "insert_rows unique_ticker_date ?df ''BNS.TO'' [bns_bar1] ?stz = (None, ?sta)"
    by code_simp
  have h6: "insert_params ?df ''BNS.TO'' bns_bar1 = Some (hd bns_stored)"
    by code_simp
  have h7: "\<not> unique_ticker_date (database ?sta @ pending ?sta) (hd bns_stored)"
    by code_simp
  have h8: "length (database (insert_run unique_ticker_date td_then_repeated_folder
      ([(''TD'', ''TD.TO'')] @ (''Scotiabank'', ''BNS.TO'') # [(''RBC'', ''RY.TO'')]) True [])) = 4"
    by code_simp
  note t = row_failure_ends_the_batch
    [where fs = td_then_repeated_folder and bank = "''Scotiabank''" and f = bns_file_repeated
       and df = ?df and ok = unique_ticker_date and ys = "[(''RBC'', ''RY.TO'')]",
     OF h1 h2 h3 h4 h5 h6 h7, THEN conjunct1]
  from h1 h2 h3 h4 h5 h6 h7 h8 t show ?thesis by blast
qed

section \<open>What the run reports\<close>

text \<open>
  Claim C7 says that every failure, a ticker whose input is absent included, is counted
  and surfaced in a final per-ticker summary. The cell prints no summary: with no file at
  all it prints nothing, and with the TD file alone it prints the line for TD and nothing
  about Scotiabank and RBC.
\<close>

theorem absent_input_counterexample:
  "insert_cell no_constraint Map.empty True [] = \<lparr>database = [], pending = [], printed = []\<rparr> \<and>
   insert_cell no_constraint td_folder True [] =
     \<lparr>database = param_rows td_frame ''TD.TO'' (iterrows td_frame), pending = [],
      printed = [InsertedSuccessfully ''TD'' ''TD.TO'']\<rparr>"
  by code_simp

text \<open>
  C7 as amended: the run prints no summary and counts nothing. A ticker whose file is
  absent is skipped without a line, wherever it stands in the catalog: the run is the run
  without that ticker. A run in which no ticker raises prints one success line for each
  ticker whose file exists, in catalog order, and nothing else. A run in which a ticker
  raises prints the success lines of the tickers before it whose file exists, then a
  single line with the exception, and nothing for the ticker that raised nor for those
  after it.
\<close>

theorem absent_ticker_leaves_no_trace:
  "(fs (path_join csv_folder (historical_file bank)) = None \<longrightarrow>
      insert_run ok fs (xs @ (bank, ticker) # ys) reachable db =
      insert_run ok fs (xs @ ys) reachable db) \<and>
   (insert_banks ok fs cat \<lparr>database = db, pending = [], printed = []\<rparr> = (None, st) \<longrightarrow>
      printed (insert_run ok fs cat True db) =
        map (\<lambda>b. InsertedSuccessfully (fst b) (snd b))
          (filter (\<lambda>b. fs (path_join csv_folder (historical_file (fst b))) \<noteq> None) cat)) \<and>
   (insert_banks ok fs xs \<lparr>database = db, pending = [], printed = []\<rparr> = (None, sta) \<and>
    insert_bank ok fs b sta = (Some e, stb) \<longrightarrow>
      printed (insert_run ok fs (xs @ b # ys) True db) =
        map (\<lambda>b. InsertedSuccessfully (fst b) (snd b))
          (filter (\<lambda>b. fs (path_join csv_folder (historical_file (fst b))) \<noteq> None) xs) @
        [ErrorInserting e])"
proof (intro conjI impI)
  assume "fs (path_join csv_folder (historical_file bank)) = None"
  then show "insert_run ok fs (xs @ (bank, ticker) # ys) reachable db =
      insert_run ok fs (xs @ ys) reachable db"
    by (simp add: insert_run_def insert_banks_skip)
next
  assume a: "insert_banks ok fs cat \<lparr>database = db, pending = [], printed = []\<rparr> = (None, st)"
  from insert_banks_printed [OF a] a
  show "printed (insert_run ok fs cat True db) =
        map (\<lambda>b. InsertedSuccessfully (fst b) (snd b))
          (filter (\<lambda>b. fs (path_join csv_folder (historical_file (fst b))) \<noteq> None) cat)"
    by (simp add: insert_run_def conn_close_def)
next
  assume a: "insert_banks ok fs xs \<lparr>database = db, pending = [], printed = []\<rparr> = (None, sta) \<and>
    insert_bank ok fs b sta = (Some e, stb)"
  then have x: "insert_banks ok fs xs \<lparr>database = db, pending = [], printed = []\<rparr> = (None, sta)"
    and f: "insert_bank ok fs b sta = (Some e, stb)" by simp_all
  from insert_banks_stops [OF x f, of ys] insert_bank_failure [OF f] insert_banks_printed [OF x]
  show "printed (insert_run ok fs (xs @ b # ys) True db) =
        map (\<lambda>b. InsertedSuccessfully (fst b) (snd b))
          (filter (\<lambda>b. fs (path_join csv_folder (historical_file (fst b))) \<noteq> None) xs) @
        [ErrorInserting e]"
    by (simp add: insert_run_def)
qed

theorem absent_ticker_witness:
  "td_folder (path_join csv_folder (historical_file ''Scotiabank'')) = None \<and>
   insert_run no_constraint td_folder
      ([(''TD'', ''TD.TO'')] @ (''Scotiabank'', ''BNS.TO'') # [(''RBC'', ''RY.TO'')]) True [] =
     insert_run no_constraint td_folder ([(''TD'', ''TD.TO'')] @ [(''RBC'', ''RY.TO'')]) True [] \<and>
   insert_banks no_constraint td_folder bank_tickers_insert
      \<lparr>database = [], pending = [], printed = []\<rparr> =
     (None, \<lparr>database = param_rows td_frame ''TD.TO'' (iterrows td_frame), pending = [],
             printed = [InsertedSuccessfully ''TD'' ''TD.TO'']\<rparr>) \<and>
   printed (insert_run no_constraint td_folder bank_tickers_insert True []) =
     map (\<lambda>b. InsertedSuccessfully (fst b) (snd b))
       (filter (\<lambda>b. td_folder (path_join csv_folder (historical_file (fst b))) \<noteq> None)
          bank_tickers_insert) \<and>
   insert_banks unique_ticker_date td_then_repeated_folder [(''TD'', ''TD.TO'')]
      \<lparr>database = [], pending = [], printed = []\<rparr> =
     (None, \<lparr>database = param_rows td_frame ''TD.TO'' (iterrows td_frame), pending = [],
             printed = [InsertedSuccessfully ''TD'' ''TD.TO'']\<rparr>) \<and>
   insert_bank unique_ticker_date td_then_repeated_folder (''Scotiabank'', ''BNS.TO'')
      \<lparr>database = param_rows td_frame ''TD.TO'' (iterrows td_frame), pending = [],
       printed = [InsertedSuccessfully ''TD'' ''TD.TO'']\<rparr> =
     (Some DatabaseError,
      \<lparr>database = param_rows td_frame ''TD.TO'' (iterrows td_frame), pending = bns_stored,
       printed = [InsertedSuccessfully ''TD'' ''TD.TO'']\<rparr>) \<and>
   printed (insert_run unique_ticker_date td_then_repeated_folder
      ([(''TD'', ''TD.TO'')] @ (''Scotiabank'', ''BNS.TO'') # [(''RBC'', ''RY.TO'')]) True []) =
     map (\<lambda>b. InsertedSuccessfully (fst b) (snd b))
       (filter (\<lambda>b. td_then_repeated_folder (path_join csv_folder (historical_file (fst b))) \<noteq> None)
          [(''TD'', ''TD.TO'')]) @
     [ErrorInserting DatabaseError]"
proof -
  let ?st = "\<lparr>database = param_rows td_frame ''TD.TO'' (iterrows td_frame), pending = [],
             printed = [InsertedSuccessfully ''TD'' ''TD.TO'']\<rparr>"
  let ?stb = "\<lparr>database = param_rows td_frame ''TD.TO'' (iterrows td_frame), pending = bns_stored,
              printed = [InsertedSuccessfully ''TD'' ''TD.TO'']\<rparr>"
  have h1: "td_folder (path_join csv_folder (historical_file ''Scotiabank'')) = None"
    by code_simp
  have h2: "insert_banks no_constraint td_folder bank_tickers_insert
      \<lparr>database = [], pending = [], printed = []\<rparr> = (None, ?st)"
    by code_simp
  have h3: "insert_banks unique_ticker_date td_then_repeated_folder [(''TD'', ''TD.TO'')]
      \<lparr>database = [], pending = [], printed = []\<rparr> = (None, ?st)"
    by code_simp
  have h4: "insert_bank unique_ticker_date td_then_repeated_folder (''Scotiabank'', ''BNS.TO'') ?st =
     (Some DatabaseError, ?stb)"
    by code_simp
  note a = absent_ticker_leaves_no_trace
    [where fs = td_folder and bank = "''Scotiabank''" and ticker = "''BNS.TO''"
       and xs = "[(''TD'', ''TD.TO'')]" and ys = "[(''RBC'', ''RY.TO'')]"
       and ok = no_constraint and reachable = True and db = "[]"
       and cat = bank_tickers_insert and st = ?st]
  note b = absent_ticker_leaves_no_trace
    [where fs = td_then_repeated_folder and ok = unique_ticker_date
       and xs = "[(''TD'', ''TD.TO'')]" and b = "(''Scotiabank'', ''BNS.TO'')"
       and ys = "[(''RBC'', ''RY.TO'')]" and db = "[]" and sta = ?st and e = DatabaseError
       and stb = ?stb]
  note c1 = a [THEN conjunct1, THEN mp, OF h1]
  note c2 = a [THEN conjunct2, THEN conjunct1, THEN mp, OF h2]
  note c3 = b [THEN conjunct2, THEN conjunct2, THEN mp, OF conjI [OF h3 h4]]
  show ?thesis
    by (intro conjI) (rule h1 h2 h3 h4 c1 c2 c3)+
qed

section \<open>The tickers that reach the store\<close>

text \<open>
  Claim C10 says that every ticker of the catalog goes through fetch, normalize and
  persist, in catalog order. The download runs over the five tickers of cell 10; cell 32
  rebinds the catalog to TD, Scotiabank, RBC. With a provider that answers every symbol
  and an empty table, the BMO file is written and no BMO.TO row is stored, and
  Scotiabank, which is downloaded last, is stored before RBC.
\<close>

theorem fetched_not_persisted_counterexample:
  "fst (notebook_prices no_constraint one_bar_feed csv_folder Map.empty True [])
      (path_join csv_folder (historical_file ''BMO'')) = Some (to_csv_prices ''BMO.TO'' [td_line1]) \<and>
   map stock_ticker (database (snd (notebook_prices no_constraint one_bar_feed csv_folder Map.empty True []))) =
     [''TD.TO'', ''BNS.TO'', ''RY.TO''] \<and>
   map fst (download_all one_bar_feed bank_tickers) = [''TD'', ''BMO'', ''RBC'', ''CIBC'', ''Scotiabank'']"
  by code_simp

text \<open>
  C10 as amended: the download runs for the five tickers of the catalog (TD, BMO, RBC,
  CIBC, Scotiabank) and the file of each of them is saved with what the provider answered
  for its symbol. The insertion runs over TD, Scotiabank, RBC only, in that order: when
  the notebook runs in the folder cell 32 reads from, the three files load and the table
  has no constraint, the stored rows are those stored before, followed by all rows of the
  TD file, then all rows of the Scotiabank file, then all rows of the RBC file, each under
  its provider symbol, and one success line is printed for each of the three. Whatever
  the constraint, the folder and the connection, the rows stored before are kept and the
  rows added have the symbol TD.TO, BNS.TO or RY.TO: BMO and CIBC are fetched and saved
  and never persisted.
\<close>

theorem persisted_tickers:
  assumes "load_frame (feed ''TD.TO'') = Inr dft"
    and "load_frame (feed ''BNS.TO'') = Inr dfb"
    and "load_frame (feed ''RY.TO'') = Inr dfr"
  shows "map (\<lambda>b. fst (notebook_prices ok feed cwd fs reachable db)
                    (path_join cwd (historical_file (fst b)))) bank_tickers =
           map (\<lambda>b. Some (feed (snd b))) bank_tickers \<and>
         snd (notebook_prices no_constraint feed csv_folder fs True db) =
           \<lparr>database = db @ param_rows dft ''TD.TO'' (iterrows dft) @
                       param_rows dfb ''BNS.TO'' (iterrows dfb) @ param_rows dfr ''RY.TO'' (iterrows dfr),
            pending = [],
            printed = [InsertedSuccessfully ''TD'' ''TD.TO'',
                       InsertedSuccessfully ''Scotiabank'' ''BNS.TO'',
                       InsertedSuccessfully ''RBC'' ''RY.TO'']\<rparr> \<and>
         prefix db (database (snd (notebook_prices ok feed cwd fs reachable db))) \<and>
         list_all (\<lambda>r. stock_ticker r \<in> set [''TD.TO'', ''BNS.TO'', ''RY.TO''])
           (drop (length db) (database (snd (notebook_prices ok feed cwd fs reachable db))))"
proof (intro conjI)
  show "map (\<lambda>b. fst (notebook_prices ok feed cwd fs reachable db)
                    (path_join cwd (historical_file (fst b)))) bank_tickers =
           map (\<lambda>b. Some (feed (snd b))) bank_tickers"
    using save_all_five [of cwd feed fs] by (simp add: notebook_prices_def Let_def)
next
  let ?fs = "save_all csv_folder (download_all feed bank_tickers) fs"
  have files: "map (\<lambda>b. ?fs (path_join csv_folder (historical_file (fst b)))) bank_tickers =
      map (\<lambda>b. Some (feed (snd b))) bank_tickers"
    by (rule save_all_five)
  then have ft: "?fs (path_join csv_folder (historical_file ''TD'')) = Some (feed ''TD.TO'')"
    and fb: "?fs (path_join csv_folder (historical_file ''Scotiabank'')) = Some (feed ''BNS.TO'')"
    and fr: "?fs (path_join csv_folder (historical_file ''RBC'')) = Some (feed ''RY.TO'')"
    by (simp_all add: bank_tickers_def)
  from insert_three_no_constraint [where fs = ?fs, OF ft fb fr assms]
  show "snd (notebook_prices no_constraint feed csv_folder fs True db) =
           \<lparr>database = db @ param_rows dft ''TD.TO'' (iterrows dft) @
                       param_rows dfb ''BNS.TO'' (iterrows dfb) @ param_rows dfr ''RY.TO'' (iterrows dfr),
            pending = [],
            printed = [InsertedSuccessfully ''TD'' ''TD.TO'',
                       InsertedSuccessfully ''Scotiabank'' ''BNS.TO'',
                       InsertedSuccessfully ''RBC'' ''RY.TO'']\<rparr>"
    by (simp add: notebook_prices_def Let_def)
next
  let ?fs = "save_all cwd (download_all feed bank_tickers) fs"
  let ?init = "\<lparr>database = db, pending = [], printed = []\<rparr>"
  obtain r st where run: "insert_banks ok ?fs bank_tickers_insert ?init = (r, st)"
    by (cases "insert_banks ok ?fs bank_tickers_insert ?init")
  have db: "database (snd (notebook_prices ok feed cwd fs reachable db)) =
      (if reachable then database st else db)"
    by (simp add: notebook_prices_def Let_def insert_cell_def insert_run_database run)
  from insert_banks_prefix [OF run] db
  show "prefix db (database (snd (notebook_prices ok feed cwd fs reachable db)))" by simp
  from insert_banks_tickers [OF run, of "length db"]
  have "set (map stock_ticker (drop (length db) (database st))) \<subseteq> snd ` set bank_tickers_insert"
    by simp
  then have "set (map stock_ticker (drop (length db) (database st))) \<subseteq> set [''TD.TO'', ''BNS.TO'', ''RY.TO'']"
    by (simp add: bank_tickers_insert_def)
  with db show "list_all (\<lambda>r. stock_ticker r \<in> set [''TD.TO'', ''BNS.TO'', ''RY.TO''])
     (drop (length db) (database (snd (notebook_prices ok feed cwd fs reachable db))))"
    by (auto simp: list_all_iff)
qed

theorem persisted_tickers_witness:
  "load_frame (one_bar_feed ''TD.TO'') = Inr \<lparr>columns = map Val schema_columns, rows = [td_bar1]\<rparr> \<and>
   load_frame (one_bar_feed ''BNS.TO'') = Inr \<lparr>columns = map Val schema_columns, rows = [td_bar1]\<rparr> \<and>
   load_frame (one_bar_feed ''RY.TO'') = Inr \<lparr>columns = map Val schema_columns, rows = [td_bar1]\<rparr> \<and>
   map (\<lambda>b. fst (notebook_prices unique_ticker_date one_bar_feed csv_folder Map.empty True bns_stored)
               (path_join csv_folder (historical_file (fst b)))) bank_tickers =
     map (\<lambda>b. Some (one_bar_feed (snd b))) bank_tickers \<and>
   snd (notebook_prices no_constraint one_bar_feed csv_folder Map.empty True bns_stored) =
     \<lparr>database = bns_stored @
         param_rows \<lparr>columns = map Val schema_columns, rows = [td_bar1]\<rparr> ''TD.TO''
           (iterrows \<lparr>columns = map Val schema_columns, rows = [td_bar1]\<rparr>) @
         param_rows \<lparr>columns = map Val schema_columns, rows = [td_bar1]\<rparr> ''BNS.TO''
           (iterrows \<lparr>columns = map Val schema_columns, rows = [td_bar1]\<rparr>) @
         param_rows \<lparr>columns = map Val schema_columns, rows = [td_bar1]\<rparr> ''RY.TO''
           (iterrows \<lparr>columns = map Val schema_columns, rows = [td_bar1]\<rparr>),
      pending = [],
      printed = [InsertedSuccessfully ''TD'' ''TD.TO'',
                 InsertedSuccessfully ''Scotiabank'' ''BNS.TO'',
                 InsertedSuccessfully ''RBC'' ''RY.TO'']\<rparr> \<and>
   prefix bns_stored
     (database (snd (notebook_prices unique_ticker_date one_bar_feed csv_folder Map.empty True bns_stored))) \<and>
   list_all (\<lambda>r. stock_ticker r \<in> set [''TD.TO'', ''BNS.TO'', ''RY.TO''])
     (drop (length bns_stored)
        (database (snd (notebook_prices unique_ticker_date one_bar_feed csv_folder Map.empty True bns_stored)))) \<and>
   length (database (snd (notebook_prices no_constraint one_bar_feed csv_folder Map.empty True bns_stored))) = 4"
proof -
  let ?df = "\<lparr>columns = map Val schema_columns, rows = [td_bar1]\<rparr>"
  have h1: "load_frame (one_bar_feed ''TD.TO'') = Inr ?df"
    and h2: "load_frame (one_bar_feed ''BNS.TO'') = Inr ?df"
    and h3: "load_frame (one_bar_feed ''RY.TO'') = Inr ?df"
    by code_simp+
  have h4: "length (database (snd (notebook_prices no_constraint one_bar_feed csv_folder Map.empty True
      bns_stored))) = 4"
    by code_simp
  note t = persisted_tickers
    [OF h1 h2 h3, where ok = unique_ticker_date and cwd = csv_folder and fs = Map.empty
       and reachable = True and db = bns_stored]
  note t1 = t [THEN conjunct1] and t2 = t [THEN conjunct2, THEN conjunct1]
    and t3 = t [THEN conjunct2, THEN conjunct2, THEN conjunct1]
    and t4 = t [THEN conjunct2, THEN conjunct2, THEN conjunct2]
  show ?thesis
    by (intro conjI) (rule h1 h2 h3 h4 t1 t2 t3 t4)+
qed

section \<open>The leading rows\<close>

text \<open>
  Claim C3 says that the normalizer finds the leading header-artifact rows by inspecting
  each row, not by a fixed count, and that two artifact rows followed by N well-formed
  rows give N rows and a rejected count of 0. Cell 24 drops the first two rows and cell 32
  skips the first two lines, whatever they hold. On a table whose header line is followed
  by three bars at once, both keep the third bar only, although no row is a header
  artifact and the normalizer of the specification keeps all three.
\<close>

theorem fixed_count_counterexample:
  "td_data td_file_no_artifacts = Inr \<lparr>columns = map Val schema_columns, rows = [td_bar3]\<rparr> \<and>
   load_frame td_file_no_artifacts = Inr \<lparr>columns = map Val schema_columns, rows = [td_bar3]\<rparr> \<and>
   \<not> header_artifact td_line1 \<and> \<not> header_artifact td_line2 \<and>
   spec_normalize_price_table (tl td_file_no_artifacts) = ([td_line1, td_line2, td_line3], 0)"
  by code_simp

text \<open>
  C3 as amended: the leading rows are dropped by position. For a file of six-field lines
  that starts with the header line and two further lines, whatever these hold, cells 21
  to 25 and the loader of cell 32 both give exactly N rows, one for each of the N lines
  that follow and in their order, under the schema's column names: cells 21 to 25 give
  the rows of the whole table after the first two, the loader gives the rows of the N
  lines, the fields converted by pandas in both. Nothing is counted as rejected.
\<close>

theorem leading_rows_dropped_by_count:
  assumes "length h = 6" and "length a = 6" and "length b = 6"
    and "list_all (\<lambda>r. length r = 6) rs"
  shows "td_data (h # a # b # rs) =
           Inr \<lparr>columns = map Val schema_columns, rows = drop 2 (infer_rows (a # b # rs))\<rparr> \<and>
         load_frame (h # a # b # rs) =
           Inr \<lparr>columns = map Val schema_columns, rows = infer_rows rs\<rparr> \<and>
         length (drop 2 (infer_rows (a # b # rs))) = length rs \<and>
         length (infer_rows rs) = length rs"
proof -
  have all: "list_all (\<lambda>r. length r = 6) (a # b # rs)" using assms by simp
  have skip: "read_csv 2 (h # a # b # rs) = read_csv 0 (b # rs)"
    using read_csv_skip [of "Suc 0" h "a # b # rs"] read_csv_skip [of 0 a "b # rs"]
    by (simp add: numeral_2_eq_2)
  show ?thesis
    using read_csv_six [OF assms(1) all] read_csv_six [OF assms(3,4)] assms(1,3)
    by (simp add: td_data_def load_frame_def skip set_columns_def iloc_from_def
        schema_columns_def length_infer_rows)
qed

theorem leading_rows_witness:
  "length [''Price'', ''Close'', ''High'', ''Low'', ''Open'', ''Volume''] = 6 \<and>
   length (''Ticker'' # replicate 5 ''TD.TO'') = 6 \<and>
   length (''Date'' # replicate 5 []) = 6 \<and>
   list_all (\<lambda>r. length r = 6) [td_line1, td_line2, td_line3, td_line4] \<and>
   td_data ([''Price'', ''Close'', ''High'', ''Low'', ''Open'', ''Volume''] #
            (''Ticker'' # replicate 5 ''TD.TO'') # (''Date'' # replicate 5 []) #
            [td_line1, td_line2, td_line3, td_line4]) =
     Inr \<lparr>columns = map Val schema_columns,
          rows = drop 2 (infer_rows ((''Ticker'' # replicate 5 ''TD.TO'') #
                   (''Date'' # replicate 5 []) # [td_line1, td_line2, td_line3, td_line4]))\<rparr> \<and>
   load_frame ([''Price'', ''Close'', ''High'', ''Low'', ''Open'', ''Volume''] #
            (''Ticker'' # replicate 5 ''TD.TO'') # (''Date'' # replicate 5 []) #
            [td_line1, td_line2, td_line3, td_line4]) =
     Inr \<lparr>columns = map Val schema_columns,
          rows = infer_rows [td_line1, td_line2, td_line3, td_line4]\<rparr> \<and>
   length (drop 2 (infer_rows ((''Ticker'' # replicate 5 ''TD.TO'') #
             (''Date'' # replicate 5 []) # [td_line1, td_line2, td_line3, td_line4]))) =
     length [td_line1, td_line2, td_line3, td_line4] \<and>
   length (infer_rows [td_line1, td_line2, td_line3, td_line4]) =
     length [td_line1, td_line2, td_line3, td_line4]"
proof -
  have h1: "length [''Price'', ''Close'', ''High'', ''Low'', ''Open'', ''Volume''] = 6"
    by simp
  have h2: "length (''Ticker'' # replicate 5 ''TD.TO'') = 6"
    by simp
  have h3: "length (''Date'' # replicate 5 []) = 6"
    by simp
  have h4: "list_all (\<lambda>r. length r = 6) [td_line1, td_line2, td_line3, td_line4]"
    by (simp add: td_line1_def td_line2_def td_line3_def td_line4_def)
  from leading_rows_dropped_by_count [OF h1 h2 h3 h4] h1 h2 h3 h4
  show ?thesis by blast
qed

section \<open>No rejection, and coercion by column only\<close>

text \<open>
  Claim C4 says that every emitted row has its date, prices and volume coerced to the
  canonical types and that a row that fails coercion is excluded and counted. The loop
  inserts "without data type conversion", and pandas converts by column. On a TD file
  whose second bar has a date and a closing price that are no date and no number, the
  loader emits that row, keeps the closing prices of all rows as texts and makes the
  volumes floats; on a table without constraint the row is stored, while the normalizer
  of the specification rejects it.
\<close>

theorem uncoerced_row_counterexample:
  "load_frame td_file_bad_row =
     Inr \<lparr>columns = map Val schema_columns,
          rows = [[Val ''2020-01-02'', Val ''57.946807861328125'', FloatVal 5799416701667758 14,
                   FloatVal 57560076551433816 15, FloatVal 5778106587137342 14,
                   FloatVal 2207900 0],
                  [Val ''not-a-date'', Val ''abc'', NaN, FloatVal 575 1, FloatVal 577 1,
                   FloatVal 125 1],
                  [Val ''2020-01-03'', Val ''57.89942932128906'', FloatVal 5794678243435267 14,
                   FloatVal 5754426893030253 14, FloatVal 5767844009831924 14,
                   FloatVal 3472900 0]]\<rparr> \<and>
   \<not> canonical_row bad_line \<and>
   spec_normalize_price_table (tl td_file_bad_row) = ([td_line1, td_line2], 1) \<and>
   database (insert_run no_constraint bad_row_folder [(''TD'', ''TD.TO'')] True []) ! 1 =
     \<lparr>stock_ticker = ''TD.TO'', date = Val ''not-a-date'', open_price = FloatVal 577 1,
      high_price = NaN, low_price = FloatVal 575 1, close_price = Val ''abc'',
      volume = FloatVal 125 1\<rparr> \<and>
   length (database (insert_run no_constraint bad_row_folder [(''TD'', ''TD.TO'')] True [])) = 3"
  by code_simp

text \<open>
  C4 as amended: for a file that loads, every line after the header line that is not
  blank is emitted as a row and handed to the INSERT: none is excluded and nothing is
  counted. Each row is handed over with its values placed by column name, and on a table
  without constraint all of them are stored. The notebook coerces nothing itself; pandas
  converts by column, and on six-field lines a field that is no numeral, no truth value
  and no missing-value text is emitted as its text, in its row, and the rows handed to
  the INSERT are then the rows of the frame as they are.
\<close>

theorem every_line_is_emitted:
  assumes "load_frame f = Inr df"
    and "filter (\<lambda>l. \<not> blank_line l) (drop 2 f) = h # ls"
  shows "length (rows df) = length ls \<and> length (iterrows df) = length ls \<and>
         param_rows df t (iterrows df) =
           map (\<lambda>r. \<lparr>stock_ticker = t, date = r ! 0, open_price = r ! 4, high_price = r ! 2,
                      low_price = r ! 3, close_price = r ! 1, volume = r ! 5\<rparr>) (iterrows df) \<and>
         database (insert_run no_constraint [path_join csv_folder (historical_file bank) \<mapsto> f]
                     [(bank, t)] True db) = db @ param_rows df t (iterrows df) \<and>
         (list_all (\<lambda>l. length l = 6) ls \<and> i < length ls \<and> j < 6 \<and> \<not> is_na (ls ! i ! j) \<and>
          \<not> float_text (ls ! i ! j) \<and> \<not> bool_text (ls ! i ! j) \<longrightarrow>
            rows df ! i ! j = Val (ls ! i ! j) \<and> iterrows df = rows df)"
proof (intro conjI impI)
  show len: "length (rows df) = length ls"
    using load_frame_Inr(3) [OF assms(1)] assms(2) by simp
  then show "length (iterrows df) = length ls"
    by (simp add: length_iterrows)
  show "param_rows df t (iterrows df) =
           map (\<lambda>r. \<lparr>stock_ticker = t, date = r ! 0, open_price = r ! 4, high_price = r ! 2,
                      low_price = r ! 3, close_price = r ! 1, volume = r ! 5\<rparr>) (iterrows df)"
    using load_frame_Inr(1) [OF assms(1)] iterrows_widths [OF load_frame_Inr(2) [OF assms(1)]]
    by (rule param_rows_six)
  show "database (insert_run no_constraint [path_join csv_folder (historical_file bank) \<mapsto> f]
                     [(bank, t)] True db) = db @ param_rows df t (iterrows df)"
    using insert_run_single_no_constraint
      [where fs = "[path_join csv_folder (historical_file bank) \<mapsto> f]" and f = f and df = df
         and bank = bank and ticker = t and db = db, OF _ assms(1)]
    by simp
next
  assume a: "list_all (\<lambda>l. length l = 6) ls \<and> i < length ls \<and> j < 6 \<and> \<not> is_na (ls ! i ! j) \<and>
          \<not> float_text (ls ! i ! j) \<and> \<not> bool_text (ls ! i ! j)"
  then have six: "length (ls ! i) = 6" by (auto simp: list_all_iff)
  have rows: "rows df = infer_rows ls"
    using load_frame_six [OF assms] a by blast
  have "field j (ls ! i) \<in> set (map (field j) ls)" using a by auto
  then have "ls ! i ! j \<in> set (map (field j) ls)" using a six by (simp add: field_def)
  then have "infer_type (map (field j) ls) = TextColumn"
    using a by (intro infer_type_text) auto
  then show isval: "rows df ! i ! j = Val (ls ! i ! j)"
    using a six by (simp add: rows infer_rows_nth convert_cell_def)
  have i: "i < length (rows df)"
    using a load_frame_Inr(3) [OF assms(1)] assms(2) by simp
  then have mem: "rows df ! i \<in> set (rows df)" by simp
  have wid: "length (rows df ! i) = 6"
    using load_frame_Inr(2) [OF assms(1)] mem by (auto simp: list_all_iff)
  have cols: "length (columns df) = 6"
    using load_frame_Inr(1) [OF assms(1)] by (simp add: schema_columns_def)
  show "iterrows df = rows df"
    using a by (intro iterrows_text [OF mem _ _ isval]) (simp_all add: wid cols)
qed

theorem every_line_witness:
  "load_frame td_file_bad_row =
     Inr \<lparr>columns = map Val schema_columns, rows = infer_rows [td_line1, bad_line, td_line2]\<rparr> \<and>
   filter (\<lambda>l. \<not> blank_line l) (drop 2 td_file_bad_row) =
     (''Date'' # replicate 5 []) # [td_line1, bad_line, td_line2] \<and>
   length (rows \<lparr>columns = map Val schema_columns,
                 rows = infer_rows [td_line1, bad_line, td_line2]\<rparr>) =
     length [td_line1, bad_line, td_line2] \<and>
   length (iterrows \<lparr>columns = map Val schema_columns,
                     rows = infer_rows [td_line1, bad_line, td_line2]\<rparr>) =
     length [td_line1, bad_line, td_line2] \<and>
   database (insert_run no_constraint [path_join csv_folder (historical_file ''TD'') \<mapsto> td_file_bad_row]
               [(''TD'', ''TD.TO'')] True []) =
     [] @ param_rows \<lparr>columns = map Val schema_columns,
                       rows = infer_rows [td_line1, bad_line, td_line2]\<rparr> ''TD.TO''
           (iterrows \<lparr>columns = map Val schema_columns,
                       rows = infer_rows [td_line1, bad_line, td_line2]\<rparr>) \<and>
   list_all (\<lambda>l. length l = 6) [td_line1, bad_line, td_line2] \<and>
   (1::nat) < length [td_line1, bad_line, td_line2] \<and> (1::nat) < 6 \<and>
   \<not> is_na ([td_line1, bad_line, td_line2] ! 1 ! 1) \<and>
   \<not> float_text ([td_line1, bad_line, td_line2] ! 1 ! 1) \<and>
   \<not> bool_text ([td_line1, bad_line, td_line2] ! 1 ! 1) \<and>
   rows \<lparr>columns = map Val schema_columns,
         rows = infer_rows [td_line1, bad_line, td_line2]\<rparr> ! 1 ! 1 =
     Val ([td_line1, bad_line, td_line2] ! 1 ! 1) \<and>
   iterrows \<lparr>columns = map Val schema_columns,
             rows = infer_rows [td_line1, bad_line, td_line2]\<rparr> =
     rows \<lparr>columns = map Val schema_columns,
           rows = infer_rows [td_line1, bad_line, td_line2]\<rparr> \<and>
   [td_line1, bad_line, td_line2] ! 1 ! 1 = ''abc''"
proof -
  let ?ls = "[td_line1, bad_line, td_line2]"
  let ?df = "\<lparr>columns = map Val schema_columns, rows = infer_rows ?ls\<rparr>"
  have h1: "load_frame td_file_bad_row = Inr ?df"
    by code_simp
  have h2: "filter (\<lambda>l. \<not> blank_line l) (drop 2 td_file_bad_row) =
     (''Date'' # replicate 5 []) # ?ls"
    by code_simp
  have h3: "list_all (\<lambda>l. length l = 6) ?ls \<and> (1::nat) < length ?ls \<and> (1::nat) < 6 \<and>
     \<not> is_na (?ls ! 1 ! 1) \<and> \<not> float_text (?ls ! 1 ! 1) \<and> \<not> bool_text (?ls ! 1 ! 1)"
    by code_simp
  have h4: "?ls ! 1 ! 1 = ''abc''"
    by code_simp
  note t = every_line_is_emitted [OF h1 h2, where t = "''TD.TO''" and bank = "''TD''" and db = "[]"
      and i = 1 and j = 1]
  note t1 = t [THEN conjunct1]
  note t2 = t [THEN conjunct2, THEN conjunct1]
  note t3 = t [THEN conjunct2, THEN conjunct2, THEN conjunct2, THEN conjunct1]
  note t4 = t [THEN conjunct2, THEN conjunct2, THEN conjunct2, THEN conjunct2, THEN mp, OF h3]
  from h1 h2 h3 h4 t1 t2 t3 t4 show ?thesis by blast
qed

section \<open>Empty dividends\<close>

text \<open>
  Claim C9 says that a ticker with no dividend event in the window gets no dividends file
  and no error. The guard \<^verbatim>\<open>if not dividends.empty\<close> looks at the rows of the selection, not
  at the amounts: the history frame has one row for every trading day, with 0.0 in the
  column \<^verbatim>\<open>dividends\<close> on a day without payment. For a symbol with two days of history and
  no dividend event the dividends file is written, with two rows of 0.0; and when the
  history frame has no column \<^verbatim>\<open>dividends\<close> the selection raises and the loop ends at the
  first ticker, with no file written.
\<close>

theorem zero_dividends_counterexample:
  "fst (scrape_bank zero_dividend_provider csv_folder (''TD'', ''TD.TO'')
          \<lparr>written = Map.empty, shown = []\<rparr>) = None \<and>
   written (snd (scrape_bank zero_dividend_provider csv_folder (''TD'', ''TD.TO'')
                   \<lparr>written = Map.empty, shown = []\<rparr>))
      (path_join csv_folder ''TD_dividends.csv'') =
     Some [[''symbol'', ''date'', ''dividends''],
           [''TD.TO'', ''2020-01-02'', ''0.0''],
           [''TD.TO'', ''2020-01-03'', ''0.0'']] \<and>
   fst (scrape_financial_data no_dividends_provider csv_folder Map.empty) = Some KeyError \<and>
   shown (snd (scrape_financial_data no_dividends_provider csv_folder Map.empty)) =
     [ScrapingFor ''TD'' ''TD.TO''] \<and>
   written (snd (scrape_financial_data no_dividends_provider csv_folder Map.empty))
      (path_join csv_folder ''TD_income_statement.csv'') = None"
  by code_simp

text \<open>
  C9 as amended: with the three statements fetched as tables, what decides is the number
  of rows the history frame has for the symbol, whatever the amounts in them. The
  selection has one row for each row of the symbol in the history frame. When it has
  none, the ticker ends without exception, the three statement files are written, the
  dividends file is as it was, the closing line is printed and the loop goes on with the
  next ticker. When it has some, the ticker ends without exception as well and the
  dividends file is written with one line for each of them under its header, 0.0 amounts
  included. When the selection raises or the history call raises, the loop ends with
  that exception after the opening line, with no file written for the ticker.
\<close>

theorem empty_dividends_write_nothing:
  assumes "income_statement p (snd b) = Inr (Table inc)"
    and "balance_sheet p (snd b) = Inr (Table bal)"
    and "cash_flow p (snd b) = Inr (Table cf)"
  shows "(history p (snd b) = Inr h \<and> select_dividends (snd b) h = Inr [] \<longrightarrow>
            scrape_bank p cwd b st =
              (None, \<lparr>written = (written st)
                         (path_join cwd (fst b @ ''_income_statement.csv'') \<mapsto> inc,
                          path_join cwd (fst b @ ''_balance_sheet.csv'') \<mapsto> bal,
                          path_join cwd (fst b @ ''_cash_flow.csv'') \<mapsto> cf),
                      shown = shown st @ [ScrapingFor (fst b) (snd b), DataSaved (fst b)]\<rparr>) \<and>
            written (snd (scrape_bank p cwd b st)) (path_join cwd (fst b @ ''_dividends.csv'')) =
              written st (path_join cwd (fst b @ ''_dividends.csv'')) \<and>
            scrape_banks p cwd (b # bs) st = scrape_banks p cwd bs (snd (scrape_bank p cwd b st))) \<and>
         (history p (snd b) = Inr h \<and> select_dividends (snd b) h = Inr (d # ds) \<longrightarrow>
            scrape_bank p cwd b st =
              (None, \<lparr>written = (written st)
                         (path_join cwd (fst b @ ''_income_statement.csv'') \<mapsto> inc,
                          path_join cwd (fst b @ ''_balance_sheet.csv'') \<mapsto> bal,
                          path_join cwd (fst b @ ''_cash_flow.csv'') \<mapsto> cf,
                          path_join cwd (fst b @ ''_dividends.csv'') \<mapsto> dividends_csv (d # ds)),
                      shown = shown st @ [ScrapingFor (fst b) (snd b), DataSaved (fst b)]\<rparr>)) \<and>
         (select_dividends (snd b) h = Inr sel \<longrightarrow>
            length sel = length (filter (\<lambda>r. symbol r = snd b) (hrows h))) \<and>
         (history p (snd b) = Inr h \<and> select_dividends (snd b) h = Inl e \<longrightarrow>
            scrape_banks p cwd (b # bs) st =
              (Some e, st\<lparr>shown := shown st @ [ScrapingFor (fst b) (snd b)]\<rparr>)) \<and>
         (history p (snd b) = Inl e \<longrightarrow>
            scrape_banks p cwd (b # bs) st =
              (Some e, st\<lparr>shown := shown st @ [ScrapingFor (fst b) (snd b)]\<rparr>))"
proof (intro conjI impI)
  assume "history p (snd b) = Inr h \<and> select_dividends (snd b) h = Inr []"
  with assms show "scrape_bank p cwd b st =
              (None, \<lparr>written = (written st)
                         (path_join cwd (fst b @ ''_income_statement.csv'') \<mapsto> inc,
                          path_join cwd (fst b @ ''_balance_sheet.csv'') \<mapsto> bal,
                          path_join cwd (fst b @ ''_cash_flow.csv'') \<mapsto> cf),
                      shown = shown st @ [ScrapingFor (fst b) (snd b), DataSaved (fst b)]\<rparr>)"
    and "written (snd (scrape_bank p cwd b st)) (path_join cwd (fst b @ ''_dividends.csv'')) =
              written st (path_join cwd (fst b @ ''_dividends.csv''))"
    and "scrape_banks p cwd (b # bs) st = scrape_banks p cwd bs (snd (scrape_bank p cwd b st))"
    by (simp_all add: scrape_bank_def save_statement_def Let_def path_join_def)
next
  assume "history p (snd b) = Inr h \<and> select_dividends (snd b) h = Inr (d # ds)"
  with assms show "scrape_bank p cwd b st =
              (None, \<lparr>written = (written st)
                         (path_join cwd (fst b @ ''_income_statement.csv'') \<mapsto> inc,
                          path_join cwd (fst b @ ''_balance_sheet.csv'') \<mapsto> bal,
                          path_join cwd (fst b @ ''_cash_flow.csv'') \<mapsto> cf,
                          path_join cwd (fst b @ ''_dividends.csv'') \<mapsto> dividends_csv (d # ds)),
                      shown = shown st @ [ScrapingFor (fst b) (snd b), DataSaved (fst b)]\<rparr>)"
    by (simp add: scrape_bank_def save_statement_def Let_def)
next
  assume "select_dividends (snd b) h = Inr sel"
  then show "length sel = length (filter (\<lambda>r. symbol r = snd b) (hrows h))"
    by (auto simp: select_dividends_def split: if_splits)
next
  assume "history p (snd b) = Inr h \<and> select_dividends (snd b) h = Inl e"
  with assms show "scrape_banks p cwd (b # bs) st =
              (Some e, st\<lparr>shown := shown st @ [ScrapingFor (fst b) (snd b)]\<rparr>)"
    by (simp add: scrape_bank_def Let_def)
next
  assume "history p (snd b) = Inl e"
  with assms show "scrape_banks p cwd (b # bs) st =
              (Some e, st\<lparr>shown := shown st @ [ScrapingFor (fst b) (snd b)]\<rparr>)"
    by (simp add: scrape_bank_def Let_def)
qed

theorem empty_dividends_witness:
  "income_statement quiet_provider (snd (''TD'', ''TD.TO'')) =
     Inr (Table [[''asOfDate'', ''TotalRevenue'']]) \<and>
   balance_sheet quiet_provider (snd (''TD'', ''TD.TO'')) =
     Inr (Table [[''asOfDate'', ''TotalAssets'']]) \<and>
   cash_flow quiet_provider (snd (''TD'', ''TD.TO'')) =
     Inr (Table [[''asOfDate'', ''FreeCashFlow'']]) \<and>
   history quiet_provider (snd (''TD'', ''TD.TO'')) =
     Inr \<lparr>hcolumns = [''close'', ''dividends''], hrows = []\<rparr> \<and>
   select_dividends (snd (''TD'', ''TD.TO'')) \<lparr>hcolumns = [''close'', ''dividends''], hrows = []\<rparr> =
     Inr [] \<and>
   scrape_bank quiet_provider csv_folder (''TD'', ''TD.TO'') \<lparr>written = Map.empty, shown = []\<rparr> =
     (None, \<lparr>written = (written \<lparr>written = Map.empty, shown = []\<rparr>)
                (path_join csv_folder (fst (''TD'', ''TD.TO'') @ ''_income_statement.csv'') \<mapsto>
                   [[''asOfDate'', ''TotalRevenue'']],
                 path_join csv_folder (fst (''TD'', ''TD.TO'') @ ''_balance_sheet.csv'') \<mapsto>
                   [[''asOfDate'', ''TotalAssets'']],
                 path_join csv_folder (fst (''TD'', ''TD.TO'') @ ''_cash_flow.csv'') \<mapsto>
                   [[''asOfDate'', ''FreeCashFlow'']]),
             shown = shown \<lparr>written = Map.empty, shown = []\<rparr> @
                [ScrapingFor (fst (''TD'', ''TD.TO'')) (snd (''TD'', ''TD.TO'')),
                 DataSaved (fst (''TD'', ''TD.TO''))]\<rparr>) \<and>
   written (snd (scrape_bank quiet_provider csv_folder (''TD'', ''TD.TO'') \<lparr>written = Map.empty, shown = []\<rparr>))
     (path_join csv_folder (fst (''TD'', ''TD.TO'') @ ''_dividends.csv'')) =
     written \<lparr>written = Map.empty, shown = []\<rparr>
       (path_join csv_folder (fst (''TD'', ''TD.TO'') @ ''_dividends.csv'')) \<and>
   income_statement zero_dividend_provider (snd (''TD'', ''TD.TO'')) =
     Inr (Table [[''asOfDate'', ''TotalRevenue'']]) \<and>
   balance_sheet zero_dividend_provider (snd (''TD'', ''TD.TO'')) =
     Inr (Table [[''asOfDate'', ''TotalAssets'']]) \<and>
   cash_flow zero_dividend_provider (snd (''TD'', ''TD.TO'')) =
     Inr (Table [[''asOfDate'', ''FreeCashFlow'']]) \<and>
   history zero_dividend_provider (snd (''TD'', ''TD.TO'')) =
     Inr \<lparr>hcolumns = [''close'', ''dividends''],
          hrows = [\<lparr>symbol = ''TD.TO'', day = ''2020-01-02'', entries = [''57.9'', ''0.0'']\<rparr>,
                   \<lparr>symbol = ''TD.TO'', day = ''2020-01-03'', entries = [''57.8'', ''0.0'']\<rparr>]\<rparr> \<and>
   select_dividends (snd (''TD'', ''TD.TO''))
     \<lparr>hcolumns = [''close'', ''dividends''],
      hrows = [\<lparr>symbol = ''TD.TO'', day = ''2020-01-02'', entries = [''57.9'', ''0.0'']\<rparr>,
               \<lparr>symbol = ''TD.TO'', day = ''2020-01-03'', entries = [''57.8'', ''0.0'']\<rparr>]\<rparr> =
     Inr ((''TD.TO'', ''2020-01-02'', ''0.0'') # [(''TD.TO'', ''2020-01-03'', ''0.0'')]) \<and>
   scrape_bank zero_dividend_provider csv_folder (''TD'', ''TD.TO'') \<lparr>written = Map.empty, shown = []\<rparr> =
     (None, \<lparr>written = (written \<lparr>written = Map.empty, shown = []\<rparr>)
                (path_join csv_folder (fst (''TD'', ''TD.TO'') @ ''_income_statement.csv'') \<mapsto>
                   [[''asOfDate'', ''TotalRevenue'']],
                 path_join csv_folder (fst (''TD'', ''TD.TO'') @ ''_balance_sheet.csv'') \<mapsto>
                   [[''asOfDate'', ''TotalAssets'']],
                 path_join csv_folder (fst (''TD'', ''TD.TO'') @ ''_cash_flow.csv'') \<mapsto>
                   [[''asOfDate'', ''FreeCashFlow'']],
                 path_join csv_folder (fst (''TD'', ''TD.TO'') @ ''_dividends.csv'') \<mapsto>
                   dividends_csv ((''TD.TO'', ''2020-01-02'', ''0.0'') #
                                  [(''TD.TO'', ''2020-01-03'', ''0.0'')])),
             shown = shown \<lparr>written = Map.empty, shown = []\<rparr> @
                [ScrapingFor (fst (''TD'', ''TD.TO'')) (snd (''TD'', ''TD.TO'')),
                 DataSaved (fst (''TD'', ''TD.TO''))]\<rparr>) \<and>
   length ((''TD.TO'', ''2020-01-02'', ''0.0'') # [(''TD.TO'', ''2020-01-03'', ''0.0'')]) =
     length (filter (\<lambda>r. symbol r = snd (''TD'', ''TD.TO''))
       (hrows \<lparr>hcolumns = [''close'', ''dividends''],
               hrows = [\<lparr>symbol = ''TD.TO'', day = ''2020-01-02'', entries = [''57.9'', ''0.0'']\<rparr>,
                        \<lparr>symbol = ''TD.TO'', day = ''2020-01-03'', entries = [''57.8'', ''0.0'']\<rparr>]\<rparr>)) \<and>
   income_statement no_dividends_provider (snd (''TD'', ''TD.TO'')) =
     Inr (Table [[''asOfDate'', ''TotalRevenue'']]) \<and>
   balance_sheet no_dividends_provider (snd (''TD'', ''TD.TO'')) =
     Inr (Table [[''asOfDate'', ''TotalAssets'']]) \<and>
   cash_flow no_dividends_provider (snd (''TD'', ''TD.TO'')) =
     Inr (Table [[''asOfDate'', ''FreeCashFlow'']]) \<and>
   history no_dividends_provider (snd (''TD'', ''TD.TO'')) =
     Inr \<lparr>hcolumns = [''close''],
          hrows = [\<lparr>symbol = ''TD.TO'', day = ''2020-01-02'', entries = [''57.9'']\<rparr>]\<rparr> \<and>
   select_dividends (snd (''TD'', ''TD.TO''))
     \<lparr>hcolumns = [''close''],
      hrows = [\<lparr>symbol = ''TD.TO'', day = ''2020-01-02'', entries = [''57.9'']\<rparr>]\<rparr> = Inl KeyError \<and>
   scrape_banks no_dividends_provider csv_folder ((''TD'', ''TD.TO'') # [(''BMO'', ''BMO.TO'')])
      \<lparr>written = Map.empty, shown = []\<rparr> =
     (Some KeyError,
      \<lparr>written = Map.empty, shown = []\<rparr>
        \<lparr>shown := shown \<lparr>written = Map.empty, shown = []\<rparr> @
           [ScrapingFor (fst (''TD'', ''TD.TO'')) (snd (''TD'', ''TD.TO''))]\<rparr>) \<and>
   income_statement failing_provider (snd (''TD'', ''TD.TO'')) =
     Inr (Table [[''asOfDate'', ''TotalRevenue'']]) \<and>
   balance_sheet failing_provider (snd (''TD'', ''TD.TO'')) =
     Inr (Table [[''asOfDate'', ''TotalAssets'']]) \<and>
   cash_flow failing_provider (snd (''TD'', ''TD.TO'')) =
     Inr (Table [[''asOfDate'', ''FreeCashFlow'']]) \<and>
   history failing_provider (snd (''TD'', ''TD.TO'')) = Inl ProviderError \<and>
   scrape_banks failing_provider csv_folder ((''TD'', ''TD.TO'') # [(''BMO'', ''BMO.TO'')])
      \<lparr>written = Map.empty, shown = []\<rparr> =
     (Some ProviderError,
      \<lparr>written = Map.empty, shown = []\<rparr>
        \<lparr>shown := shown \<lparr>written = Map.empty, shown = []\<rparr> @
           [ScrapingFor (fst (''TD'', ''TD.TO'')) (snd (''TD'', ''TD.TO''))]\<rparr>)"
proof -
  let ?b = "(''TD'', ''TD.TO'')"
  let ?st = "\<lparr>written = Map.empty, shown = []\<rparr>"
  let ?h = "\<lparr>hcolumns = [''close'', ''dividends''], hrows = []\<rparr>"
  let ?hz = "\<lparr>hcolumns = [''close'', ''dividends''],
             hrows = [\<lparr>symbol = ''TD.TO'', day = ''2020-01-02'', entries = [''57.9'', ''0.0'']\<rparr>,
                      \<lparr>symbol = ''TD.TO'', day = ''2020-01-03'', entries = [''57.8'', ''0.0'']\<rparr>]\<rparr>"
  let ?hk = "\<lparr>hcolumns = [''close''],
             hrows = [\<lparr>symbol = ''TD.TO'', day = ''2020-01-02'', entries = [''57.9'']\<rparr>]\<rparr>"
  have q1: "income_statement quiet_provider (snd ?b) = Inr (Table [[''asOfDate'', ''TotalRevenue'']])"
    and q2: "balance_sheet quiet_provider (snd ?b) = Inr (Table [[''asOfDate'', ''TotalAssets'']])"
    and q3: "cash_flow quiet_provider (snd ?b) = Inr (Table [[''asOfDate'', ''FreeCashFlow'']])"
    and q4: "history quiet_provider (snd ?b) = Inr ?h"
    by (simp_all add: quiet_provider_def)
  have q5: "select_dividends (snd ?b) ?h = Inr []"
    by (simp add: select_dividends_def)
  have z1: "income_statement zero_dividend_provider (snd ?b) = Inr (Table [[''asOfDate'', ''TotalRevenue'']])"
    and z2: "balance_sheet zero_dividend_provider (snd ?b) = Inr (Table [[''asOfDate'', ''TotalAssets'']])"
    and z3: "cash_flow zero_dividend_provider (snd ?b) = Inr (Table [[''asOfDate'', ''FreeCashFlow'']])"
    and z4: "history zero_dividend_provider (snd ?b) = Inr ?hz"
    by (simp_all add: zero_dividend_provider_def quiet_provider_def)
  have z5: "select_dividends (snd ?b) ?hz =
      Inr ((''TD.TO'', ''2020-01-02'', ''0.0'') # [(''TD.TO'', ''2020-01-03'', ''0.0'')])"
    by (simp add: select_dividends_def)
  have k1: "income_statement no_dividends_provider (snd ?b) = Inr (Table [[''asOfDate'', ''TotalRevenue'']])"
    and k2: "balance_sheet no_dividends_provider (snd ?b) = Inr (Table [[''asOfDate'', ''TotalAssets'']])"
    and k3: "cash_flow no_dividends_provider (snd ?b) = Inr (Table [[''asOfDate'', ''FreeCashFlow'']])"
    and k4: "history no_dividends_provider (snd ?b) = Inr ?hk"
    by (simp_all add: no_dividends_provider_def quiet_provider_def)
  have k5: "select_dividends (snd ?b) ?hk = Inl KeyError"
    by (simp add: select_dividends_def)
  have f1: "income_statement failing_provider (snd ?b) = Inr (Table [[''asOfDate'', ''TotalRevenue'']])"
    and f2: "balance_sheet failing_provider (snd ?b) = Inr (Table [[''asOfDate'', ''TotalAssets'']])"
    and f3: "cash_flow failing_provider (snd ?b) = Inr (Table [[''asOfDate'', ''FreeCashFlow'']])"
    and f4: "history failing_provider (snd ?b) = Inl ProviderError"
    by (simp_all add: failing_provider_def quiet_provider_def)
  note a = empty_dividends_write_nothing
    [OF q1 q2 q3, where h = ?h and cwd = csv_folder and st = ?st,
     THEN conjunct1, THEN mp, OF conjI [OF q4 q5]]
  note z = empty_dividends_write_nothing
    [OF z1 z2 z3, where h = ?hz and cwd = csv_folder and st = ?st
       and d = "(''TD.TO'', ''2020-01-02'', ''0.0'')" and ds = "[(''TD.TO'', ''2020-01-03'', ''0.0'')]"
       and sel = "(''TD.TO'', ''2020-01-02'', ''0.0'') # [(''TD.TO'', ''2020-01-03'', ''0.0'')]"]
  note za = z [THEN conjunct2, THEN conjunct1, THEN mp, OF conjI [OF z4 z5]]
  note zb = z [THEN conjunct2, THEN conjunct2, THEN conjunct1, THEN mp, OF z5]
  note k = empty_dividends_write_nothing
    [OF k1 k2 k3, where h = ?hk and e = KeyError and cwd = csv_folder and st = ?st
       and bs = "[(''BMO'', ''BMO.TO'')]",
     THEN conjunct2, THEN conjunct2, THEN conjunct2, THEN conjunct1, THEN mp, OF conjI [OF k4 k5]]
  note b = empty_dividends_write_nothing
    [OF f1 f2 f3, where e = ProviderError and cwd = csv_folder and st = ?st
       and bs = "[(''BMO'', ''BMO.TO'')]",
     THEN conjunct2, THEN conjunct2, THEN conjunct2, THEN conjunct2, THEN mp, OF f4]
  note a1 = a [THEN conjunct1] and a2 = a [THEN conjunct2, THEN conjunct1]
  show ?thesis
    by (intro conjI) (rule q1 q2 q3 q4 q5 z1 z2 z3 z4 z5 k1 k2 k3 k4 k5 f1 f2 f3 f4 a1 a2 za zb k b)+
qed

end
